theory Spec2Isabelle
  imports Complex_Main
begin

section \<open>Values, text and errors\<close>

text \<open>
  The program is Python on top of pandas. A table cell is a number, a text, the missing
  marker (pandas' NaN) or a tuple (a tuple only ever appears as a row label, see
  \<open>build_pivot\<close>). A Python float is a real; NaN is the explicit value \<open>NaN\<close> (\<open>None\<close> in
  a column of numbers), and overflow and the infinities are outside the model. The
  arithmetic is exact in the sums and ratios of the analysis and in the numeric summary
  of the payload; it is binary64, every operation rounded, in the data-quality check,
  which compares with a threshold; and the reductions of pandas in the pivot (the
  aggregate of a group, the sum of a column) are parameters.

  A Python \<open>str\<close> is a \<open>string\<close> whose characters are the code points below 256. The
  only code points above 255 that the program itself produces are the em dash and the
  arrow of the fallback narrative; they are written as their UTF-8 bytes, which no
  operation of the model inspects.

  An exception is a value: every function that can raise returns \<open>exn + 'a\<close>.
  \<open>OutsideModel\<close> is not a Python exception: it marks the inputs on which the behaviour of
  pandas is not modelled (column names that repeat, a pivot without values).
\<close>

datatype cell = Num real | Txt string | NaN | Tup "cell list"

datatype exn = KeyError | ValueError | TypeError | OutsideModel

text \<open>\<open>s.replace(c, by)\<close> for a pattern \<open>c\<close> of one character.\<close>

definition replace_char :: "char \<Rightarrow> string \<Rightarrow> string \<Rightarrow> string" where
  "replace_char c by s = concat (map (\<lambda>x. if x = c then by else [x]) s)"

text \<open>\<open>sep.join(parts)\<close>.\<close>

fun join :: "string \<Rightarrow> string list \<Rightarrow> string" where
  "join sep [] = []"
| "join sep [x] = x"
| "join sep (x # y # ys) = x @ sep @ join sep (y # ys)"

text \<open>\<open>str.isspace\<close> on one character below 256, and \<open>str.strip()\<close>.\<close>

definition isspace :: "char \<Rightarrow> bool" where
  "isspace c = (let n = (of_char c :: nat) in
     (9 \<le> n \<and> n \<le> 13) \<or> (28 \<le> n \<and> n \<le> 32) \<or> n = 133 \<or> n = 160)"

definition strip :: "string \<Rightarrow> string" where
  "strip s = rev (dropWhile isspace (rev (dropWhile isspace s)))"

text \<open>
  Python's \<open>str(v)\<close> (pandas' \<open>astype(str)\<close> on one value): a text is itself and NaN
  is \<open>nan\<close>. The text of a float or of a tuple is its \<open>repr\<close>, which for a float is a
  function of the floating point value: it is the parameter \<open>repr\<close>, and no result
  below depends on it.
\<close>

fun py_str :: "(cell \<Rightarrow> string) \<Rightarrow> cell \<Rightarrow> string" where
  "py_str repr (Txt s) = s"
| "py_str repr NaN = ''nan''"
| "py_str repr v = repr v"

text \<open>Comparison of strings by code point, and a stable insertion sort by a comparison.\<close>

fun str_le :: "string \<Rightarrow> string \<Rightarrow> bool" where
  "str_le [] t = True"
| "str_le (a # s) [] = False"
| "str_le (a # s) (b # t) =
     (if a = b then str_le s t else (of_char a :: nat) < of_char b)"

fun insort_by :: "('a \<Rightarrow> 'a \<Rightarrow> bool) \<Rightarrow> 'a \<Rightarrow> 'a list \<Rightarrow> 'a list" where
  "insort_by le x [] = [x]"
| "insort_by le x (y # ys) = (if le x y then x # y # ys else y # insort_by le x ys)"

definition sort_by :: "('a \<Rightarrow> 'a \<Rightarrow> bool) \<Rightarrow> 'a list \<Rightarrow> 'a list" where
  "sort_by le xs = foldr (insort_by le) xs []"

section \<open>Numeric normalization (formatters.py)\<close>

text \<open>
  \<open>to_num\<close>: every value is turned into text, the no-break space (U+00A0) and the space
  are removed, the comma becomes a point, and \<open>pd.to_numeric(errors="coerce")\<close> parses
  the text: a text that does not parse becomes NaN (\<open>None\<close>). The parser of pandas is the
  parameter \<open>to_numeric\<close>.
\<close>

definition to_num :: "(cell \<Rightarrow> string) \<Rightarrow> (string \<Rightarrow> real option) \<Rightarrow> cell list \<Rightarrow> real option list" where
  "to_num repr to_numeric series =
     map (\<lambda>v. to_numeric
            (replace_char CHR '','' ''.''
              (replace_char CHR '' '' []
                (replace_char (CHR 0xA0) [] (py_str repr v))))) series"

text \<open>
  A parser of plain decimal literals (an optional minus sign, digits, an optional point
  and more digits). It is the instance of \<open>to_numeric\<close> in the examples below: pandas
  parses these texts to these values, and more texts besides (exponents, \<open>inf\<close>).
\<close>

definition is_digit :: "char \<Rightarrow> bool" where
  "is_digit c = (48 \<le> (of_char c :: nat) \<and> (of_char c :: nat) \<le> 57)"

definition digits_value :: "string \<Rightarrow> nat" where
  "digits_value ds = foldl (\<lambda>a c. 10 * a + (of_char c - 48)) 0 ds"

definition parse_decimal :: "string \<Rightarrow> real option" where
  "parse_decimal s =
     (let neg = (take 1 s = ''-'');
          t = (if neg then drop 1 s else s);
          ip = takeWhile (\<lambda>c. c \<noteq> CHR ''.'') t;
          fp = drop (length ip + 1) t
      in if ip \<noteq> [] \<and> list_all is_digit (ip @ fp)
         then Some ((if neg then - 1 else 1) * real (digits_value (ip @ fp)) / 10 ^ length fp)
         else None)"

section \<open>Tables and the pandas operations the pivot is built from\<close>

text \<open>
  A DataFrame with the default row index: the column names and the rows. The frames
  the program reads are rectangular; a cell beyond the end of a row reads as missing.
\<close>

record dataframe =
  df_columns :: "string list"
  df_rows :: "cell list list"

definition col_pos :: "string list \<Rightarrow> string \<Rightarrow> nat" where
  "col_pos cols c = length (takeWhile (\<lambda>x. x \<noteq> c) cols)"

definition cell_at :: "dataframe \<Rightarrow> cell list \<Rightarrow> string \<Rightarrow> cell" where
  "cell_at df r c =
     (let i = col_pos (df_columns df) c in if i < length r then r ! i else NaN)"

text \<open>\<open>df[c]\<close> read, and \<open>df[c] = series\<close> written.\<close>

definition get_column :: "dataframe \<Rightarrow> string \<Rightarrow> cell list" where
  "get_column df c = map (\<lambda>r. cell_at df r c) (df_rows df)"

definition set_column :: "dataframe \<Rightarrow> string \<Rightarrow> cell list \<Rightarrow> dataframe" where
  "set_column df c vs =
     df\<lparr>df_rows := map (\<lambda>(r, v). r[col_pos (df_columns df) c := v]) (zip (df_rows df) vs)\<rparr>"

definition of_float :: "real option \<Rightarrow> cell" where
  "of_float v = (case v of None \<Rightarrow> NaN | Some x \<Rightarrow> Num x)"

text \<open>The six aggregators of the selection box (\<open>agg_choice\<close>).\<close>

datatype aggfunc = AggSum | AggMean | AggCount | AggMedian | AggMin | AggMax

text \<open>
  The aggregation of one group of one column by pandas' \<open>groupby(...).agg\<close>: missing
  values are skipped; the sum of nothing is 0, the count is the number of values that
  are not missing, and mean, median, min and max of nothing are missing.
\<close>

definition nums :: "cell list \<Rightarrow> real list" where
  "nums cs = concat (map (\<lambda>c. case c of Num x \<Rightarrow> [x] | _ \<Rightarrow> []) cs)"

definition median :: "real list \<Rightarrow> real" where
  "median xs = (let s = sort xs; n = length s in
     if odd n then s ! (n div 2) else (s ! (n div 2 - 1) + s ! (n div 2)) / 2)"

fun agg :: "aggfunc \<Rightarrow> cell list \<Rightarrow> real option" where
  "agg AggSum cs = Some (sum_list (nums cs))"
| "agg AggCount cs = Some (real (length (filter (\<lambda>c. c \<noteq> NaN) cs)))"
| "agg AggMean cs =
     (if nums cs = [] then None else Some (sum_list (nums cs) / real (length (nums cs))))"
| "agg AggMedian cs = (if nums cs = [] then None else Some (median (nums cs)))"
| "agg AggMin cs = (case nums cs of [] \<Rightarrow> None | x # xs \<Rightarrow> Some (fold min xs x))"
| "agg AggMax cs = (case nums cs of [] \<Rightarrow> None | x # xs \<Rightarrow> Some (fold max xs x))"

text \<open>
  The order of group keys: pandas sorts the values of each key column, numbers before
  texts, and the key tuples lexicographically.
\<close>

fun cell_rank :: "cell \<Rightarrow> nat" where
  "cell_rank (Num x) = 0"
| "cell_rank (Txt s) = 1"
| "cell_rank c = 2"

fun cell_le :: "cell \<Rightarrow> cell \<Rightarrow> bool" where
  "cell_le (Num x) (Num y) = (x \<le> y)"
| "cell_le (Txt s) (Txt t) = str_le s t"
| "cell_le a b = (cell_rank a \<le> cell_rank b)"

fun key_le :: "cell list \<Rightarrow> cell list \<Rightarrow> bool" where
  "key_le [] k = True"
| "key_le (a # j) [] = False"
| "key_le (a # j) (b # k) = (if a = b then key_le j k else cell_le a b)"

text \<open>
  A pivot table: the names of the levels of the row index (one name: a plain index;
  two or more: a MultiIndex) and of the column index, the label of each column (a tuple
  of level values, of length 1 on a plain column index), and the rows, each with its
  key and one value per column. A value is a float or missing.
\<close>

record pivot =
  index_names :: "string option list"
  column_names :: "string option list"
  col_labels :: "cell list list"
  body :: "(cell list \<times> real option list) list"

text \<open>
  \<open>data.groupby(keys).agg({v: aggfunc for v in values})\<close> followed by
  \<open>dropna(how="all")\<close>, the first half of \<open>pd.pivot_table\<close>: the rows with a missing key
  are left out, there is one group per key tuple, in sorted order, and a group whose
  aggregated values are all missing is dropped.
\<close>

definition row_key :: "dataframe \<Rightarrow> string list \<Rightarrow> cell list \<Rightarrow> cell list" where
  "row_key data keys r = map (cell_at data r) keys"

definition keyed_rows :: "dataframe \<Rightarrow> string list \<Rightarrow> cell list list" where
  "keyed_rows data keys = filter (\<lambda>r. NaN \<notin> set (row_key data keys r)) (df_rows data)"

definition group_cells :: "dataframe \<Rightarrow> string list \<Rightarrow> cell list \<Rightarrow> string \<Rightarrow> cell list" where
  "group_cells data keys k v =
     map (\<lambda>r. cell_at data r v) (filter (\<lambda>r. row_key data keys r = k) (keyed_rows data keys))"

definition group_keys :: "dataframe \<Rightarrow> string list \<Rightarrow> cell list list" where
  "group_keys data keys = sort_by key_le (remdups (map (row_key data keys) (keyed_rows data keys)))"

definition groupby_agg ::
  "dataframe \<Rightarrow> string list \<Rightarrow> string list \<Rightarrow> aggfunc \<Rightarrow> (cell list \<times> real option list) list" where
  "groupby_agg data keys vals aggfunc =
     map (\<lambda>k. (k, map (\<lambda>v. agg aggfunc (group_cells data keys k v)) vals)) (group_keys data keys)"

definition all_missing :: "real option list \<Rightarrow> bool" where
  "all_missing vs = (\<forall>v \<in> set vs. v = None)"

definition dropna_all :: "(cell list \<times> real option list) list \<Rightarrow> (cell list \<times> real option list) list" where
  "dropna_all table = filter (\<lambda>(k, vs). \<not> all_missing vs) table"

definition fillna :: "real \<Rightarrow> real option \<Rightarrow> real option" where
  "fillna fill v = (case v of None \<Rightarrow> Some fill | Some x \<Rightarrow> Some x)"

text \<open>The value of metric \<open>v\<close> in an aggregated row.\<close>

definition metric_value :: "string list \<Rightarrow> real option list \<Rightarrow> string \<Rightarrow> real option" where
  "metric_value vals vs v = (case map_of (zip vals vs) v of None \<Rightarrow> None | Some x \<Rightarrow> x)"

text \<open>
  \<open>pd.pivot_table(data, index, columns, values, aggfunc, fill_value, margins=False)\<close>
  with a list of values and one aggregator for all of them. After the aggregation:
  with row keys only, the groups are the rows; with row and column keys, the column
  keys are unstacked into the columns \<open>(metric, column key)\<close>, an absent combination
  being \<open>fill_value\<close>; with column keys only, the table is transposed, the metrics being
  the rows. The columns are sorted, and every value still missing becomes
  \<open>fill_value\<close>. The last step, \<open>dropna(how="all", axis=1)\<close>, then finds no missing
  value: it drops a column exactly when the table has no row, so that a table without
  rows is left without columns. A name that is not a column raises \<open>KeyError\<close>, no key
  at all raises \<open>ValueError\<close>. Names that repeat and an empty list of values are outside
  the model.
\<close>

definition pivot_table ::
  "dataframe \<Rightarrow> string list \<Rightarrow> string list \<Rightarrow> string list \<Rightarrow> aggfunc \<Rightarrow> real \<Rightarrow> exn + pivot" where
  "pivot_table data index columns vals aggfunc fill_value =
     (if \<not> set (index @ columns @ vals) \<subseteq> set (df_columns data) then Inl KeyError
      else if \<not> distinct (index @ columns @ vals) \<or> \<not> distinct (df_columns data)
        then Inl OutsideModel
      else if index = [] \<and> columns = [] then Inl ValueError
      else if vals = [] then Inl OutsideModel
      else
        let agged = dropna_all (groupby_agg data (index @ columns) vals aggfunc);
            metrics = sort_by str_le vals
        in if columns = [] then
             Inr \<lparr>index_names = map Some index, column_names = [None],
                  col_labels = (if agged = [] then [] else map (\<lambda>v. [Txt v]) metrics),
                  body = map (\<lambda>(k, vs). (k, map (\<lambda>v. fillna fill_value (metric_value vals vs v)) metrics))
                           agged\<rparr>
           else if index = [] then
             Inr \<lparr>index_names = [None], column_names = map Some columns,
                  col_labels = map fst agged,
                  body = map (\<lambda>v. ([Txt v],
                                map (\<lambda>(k, vs). fillna fill_value (metric_value vals vs v)) agged))
                           metrics\<rparr>
           else
             let n = length index;
                 rks = sort_by key_le (remdups (map (\<lambda>(k, vs). take n k) agged));
                 cks = sort_by key_le (remdups (map (\<lambda>(k, vs). drop n k) agged))
             in Inr \<lparr>index_names = map Some index, column_names = None # map Some columns,
                     col_labels = concat (map (\<lambda>v. map (\<lambda>ck. Txt v # ck) cks) metrics),
                     body = map (\<lambda>rk. (rk, concat (map (\<lambda>v. map (\<lambda>ck.
                                    (case map_of agged (rk @ ck) of
                                       None \<Rightarrow> Some fill_value
                                     | Some vs \<Rightarrow> fillna fill_value (metric_value vals vs v))) cks)
                                  metrics))) rks\<rparr>)"

section \<open>The pivot builder (pivoting.py)\<close>

text \<open>\<open>DataFrame.sum(numeric_only=True)\<close>: the sum of every column, missing values skipped.\<close>

definition col_sums :: "nat \<Rightarrow> (cell list \<times> real option list) list \<Rightarrow> real option list" where
  "col_sums ncols rs =
     map (\<lambda>j. Some (sum_list (concat (map (\<lambda>(k, vs).
            (if j < length vs then (case vs ! j of None \<Rightarrow> [] | Some x \<Rightarrow> [x]) else [])) rs))))
         [0 ..< ncols]"

definition subtotal_label :: string where
  "subtotal_label = ''Sous-total''"

definition total_label :: string where
  "total_label = ''Total''"

text \<open>
  \<open>add_row_subtotals_and_total(pvt, level=0)\<close>. On a MultiIndex: for each value \<open>g\<close> of
  the first level, in order of appearance, the rows of \<open>g\<close> followed by their sum, keyed
  \<open>(g, "Sous-total")\<close>; the key is built by \<open>MultiIndex.from_tuples\<close> with the names of
  the index, which raises \<open>ValueError\<close> when the index has not exactly two levels.
  \<open>pd.concat\<close> of no piece raises \<open>ValueError\<close>. The total is the sum of the rows whose
  second key is not the subtotal label, keyed \<open>("Total", "")\<close>.
\<close>

definition level0 :: "cell list \<Rightarrow> cell" where
  "level0 k = (case k of [] \<Rightarrow> NaN | g # ks \<Rightarrow> g)"

definition level1 :: "cell list \<Rightarrow> cell" where
  "level1 k = (case k of g # h # ks \<Rightarrow> h | _ \<Rightarrow> NaN)"

definition block :: "pivot \<Rightarrow> cell \<Rightarrow> (cell list \<times> real option list) list" where
  "block pvt g = filter (\<lambda>(k, vs). level0 k = g) (body pvt)"

definition piece :: "pivot \<Rightarrow> cell \<Rightarrow> (cell list \<times> real option list) list" where
  "piece pvt g =
     block pvt g @ [([g, Txt subtotal_label], col_sums (length (col_labels pvt)) (block pvt g))]"

definition add_row_subtotals_and_total :: "pivot \<Rightarrow> exn + pivot" where
  "add_row_subtotals_and_total pvt =
     (if length (index_names pvt) \<ge> 2 then
        let groups = remdups (map (\<lambda>(k, vs). level0 k) (body pvt)) in
        if groups \<noteq> [] \<and> length (index_names pvt) \<noteq> 2 then Inl ValueError
        else if groups = [] then Inl ValueError
        else
          let out = concat (map (piece pvt) groups);
              total_vals = col_sums (length (col_labels pvt))
                             (filter (\<lambda>(k, vs). level1 k \<noteq> Txt subtotal_label) out)
          in Inr (pvt\<lparr>body := out @ [([Txt total_label, Txt ''''], total_vals)]\<rparr>)
      else
        Inr (pvt\<lparr>body := body pvt @
               [([Txt total_label], col_sums (length (col_labels pvt)) (body pvt))]\<rparr>))"

text \<open>
  The loop over \<open>value_cols\<close>: for an arithmetic aggregator the column is replaced by
  its numeric normalization; reading a column the table does not have raises
  \<open>KeyError\<close>.
\<close>

fun coerce_values ::
  "(cell \<Rightarrow> string) \<Rightarrow> (string \<Rightarrow> real option) \<Rightarrow> aggfunc \<Rightarrow> dataframe \<Rightarrow> string list \<Rightarrow> exn + dataframe" where
  "coerce_values repr to_numeric agg_choice df [] = Inr df"
| "coerce_values repr to_numeric agg_choice df (col # cols) =
     (if agg_choice \<in> {AggSum, AggMean, AggMedian, AggMin, AggMax} then
        (if col \<notin> set (df_columns df) then Inl KeyError
         else coerce_values repr to_numeric agg_choice
                (set_column df col (map of_float (to_num repr to_numeric (get_column df col))))
                cols)
      else coerce_values repr to_numeric agg_choice df cols)"

text \<open>
  The plain total of \<open>build_pivot\<close>: one row labelled \<open>"Total"\<close> with the sum of every
  column. Appended to a MultiIndex, the plain label turns the index into a plain index
  of tuples.
\<close>

definition append_total :: "pivot \<Rightarrow> pivot" where
  "append_total pvt =
     (let total_row = ([Txt total_label], col_sums (length (col_labels pvt)) (body pvt)) in
      if length (index_names pvt) \<ge> 2
      then pvt\<lparr>index_names := [None],
               body := map (\<lambda>(k, vs). ([Tup k], vs)) (body pvt) @ [total_row]\<rparr>
      else pvt\<lparr>body := body pvt @ [total_row]\<rparr>)"

definition msg_no_group :: string where
  "msg_no_group = ''Choisis au moins **une** colonne pour *Lignes* **ou** *Colonnes*.''"

definition msg_no_metric :: string where
  "msg_no_metric = ''Choisis au moins **une** m'' @ [CHR 0xE9] @ ''trique dans *Valeurs*.''"

text \<open>
  \<open>build_pivot(df, index_cols, columns_cols, value_cols, agg_choice)\<close> returns
  \<open>(pvt, msg)\<close>, \<open>pvt\<close> being \<open>None\<close> when \<open>msg\<close> explains what is missing.
\<close>

definition build_pivot ::
  "(cell \<Rightarrow> string) \<Rightarrow> (string \<Rightarrow> real option) \<Rightarrow> dataframe \<Rightarrow> string list \<Rightarrow> string list \<Rightarrow>
   string list \<Rightarrow> aggfunc \<Rightarrow> exn + (pivot option \<times> string)" where
  "build_pivot repr to_numeric df index_cols columns_cols value_cols agg_choice =
     (if index_cols = [] \<and> columns_cols = [] then Inr (None, msg_no_group)
      else if value_cols = [] then Inr (None, msg_no_metric)
      else
        case coerce_values repr to_numeric agg_choice df value_cols of
          Inl e \<Rightarrow> Inl e
        | Inr df_vals \<Rightarrow>
            (case pivot_table df_vals index_cols columns_cols value_cols agg_choice 0 of
               Inl e \<Rightarrow> Inl e
             | Inr pvt0 \<Rightarrow>
                 let pvt = pvt0\<lparr>body := dropna_all (body pvt0)\<rparr> in
                 if length (index_names pvt) \<ge> 2 \<and> columns_cols = [] then
                   (case add_row_subtotals_and_total pvt of
                      Inl e \<Rightarrow> Inl e
                    | Inr pvt' \<Rightarrow> Inr (Some pvt', []))
                 else Inr (Some (append_total pvt), [])))"

section \<open>The payload serializer (insights.py)\<close>

text \<open>
  The payload is a dictionary with the keys \<open>shape\<close>, \<open>columns\<close>, \<open>numeric_summary\<close> and
  \<open>rows\<close>; a dictionary is an association list in insertion order. A row of the payload
  maps column names to values.
\<close>

type_synonym prow = "(string \<times> cell) list"

record stats =
  s_sum :: real
  s_mean :: real
  s_min :: real
  s_max :: real
  s_non_null :: nat

record payload =
  shape_rows :: nat
  shape_cols :: nat
  p_columns :: "string list"
  numeric_summary :: "(string \<times> stats) list"
  p_rows :: "prow list"

function nat_str :: "nat \<Rightarrow> string" where
  "nat_str n = (if n < 10 then [char_of (48 + n)] else nat_str (n div 10) @ [char_of (48 + n mod 10)])"
  by pat_completeness auto
termination
  by (relation "measure id") auto

text \<open>
  The flat column names: the levels of a MultiIndex label joined by \<open>" | "\<close> and then
  stripped. A label of a plain column index is kept; the model holds its text.
\<close>

definition flat_column_names :: "(cell \<Rightarrow> string) \<Rightarrow> pivot \<Rightarrow> string list" where
  "flat_column_names repr pvt =
     (if length (column_names pvt) \<ge> 2
      then map (\<lambda>col. strip (join '' | '' (map (py_str repr) col))) (col_labels pvt)
      else map (\<lambda>col. case col of [c] \<Rightarrow> py_str repr c | _ \<Rightarrow> py_str repr (Tup col))
             (col_labels pvt))"

text \<open>
  \<open>reset_index()\<close>: every level of the row index becomes a column in front of the
  others, named by the level, or \<open>index\<close> (\<open>level_0\<close> when a column is called \<open>index\<close>) on a
  plain index without a name and \<open>level_i\<close> on a MultiIndex.
\<close>

definition level_names :: "string list \<Rightarrow> pivot \<Rightarrow> string list" where
  "level_names cols pvt =
     (case index_names pvt of
        [n] \<Rightarrow> [case n of Some s \<Rightarrow> s
                 | None \<Rightarrow> (if ''index'' \<in> set cols then ''level_0'' else ''index'')]
      | ns \<Rightarrow> map (\<lambda>(i, n). case n of Some s \<Rightarrow> s | None \<Rightarrow> ''level_'' @ nat_str i)
              (enumerate 0 ns))"

definition key_level :: "cell list \<Rightarrow> nat \<Rightarrow> cell" where
  "key_level k i = (if i < length k then k ! i else NaN)"

definition demote :: "nat \<Rightarrow> cell list \<times> real option list \<Rightarrow> cell list" where
  "demote nlevels row = map (key_level (fst row)) [0 ..< nlevels] @ map of_float (snd row)"

text \<open>\<open>DataFrame.head(n)\<close>: the first \<open>n\<close> rows, all but the last \<open>-n\<close> when \<open>n\<close> is negative.\<close>

definition head :: "int \<Rightarrow> 'a list \<Rightarrow> 'a list" where
  "head n xs = (if n \<ge> 0 then take (nat n) xs else take (length xs - nat (- n)) xs)"

text \<open>
  The dtype of a demoted level is numeric when the level is not empty and all its labels
  are numbers; the value columns of a pivot are numeric. The dtype is the one of the
  whole column: truncation does not change it.
\<close>

definition level_is_numeric :: "pivot \<Rightarrow> nat \<Rightarrow> bool" where
  "level_is_numeric pvt i =
     (body pvt \<noteq> [] \<and>
      (\<forall>row \<in> set (body pvt). case key_level (fst row) i of Num x \<Rightarrow> True | NaN \<Rightarrow> True | _ \<Rightarrow> False))"

definition summary :: "cell list \<Rightarrow> stats" where
  "summary s =
     (case nums s of
        [] \<Rightarrow> \<lparr>s_sum = 0, s_mean = 0, s_min = 0, s_max = 0, s_non_null = 0\<rparr>
      | x # xs \<Rightarrow> \<lparr>s_sum = sum_list (x # xs),
                  s_mean = sum_list (x # xs) / real (length (x # xs)),
                  s_min = fold min xs x, s_max = fold max xs x,
                  s_non_null = length (x # xs)\<rparr>)"

definition column_values :: "cell list list \<Rightarrow> nat \<Rightarrow> cell list" where
  "column_values tbl j = map (\<lambda>r. if j < length r then r ! j else NaN) tbl"

text \<open>
  \<open>pivot_to_payload(pvt, max_rows)\<close>. \<open>reset_index\<close> raises \<open>ValueError\<close> when a level
  name is already a column.
\<close>

definition pivot_to_payload :: "(cell \<Rightarrow> string) \<Rightarrow> pivot \<Rightarrow> int \<Rightarrow> exn + payload" where
  "pivot_to_payload repr pvt max_rows =
     (let cols = flat_column_names repr pvt;
          lvls = level_names cols pvt;
          names = lvls @ cols;
          nlevels = length lvls
      in if \<not> distinct lvls \<or> (\<exists>n \<in> set lvls. n \<in> set cols) then Inl ValueError
         else if \<not> distinct cols then Inl OutsideModel
         else
           let full = map (demote nlevels) (body pvt);
               tbl = (if int (length full) > max_rows then head max_rows full else full);
               numeric_cols = filter (\<lambda>j. j \<ge> nlevels \<or> level_is_numeric pvt j) [0 ..< length names]
           in Inr \<lparr>shape_rows = length tbl, shape_cols = length names, p_columns = names,
                   numeric_summary = map (\<lambda>j. (names ! j, summary (column_values tbl j))) numeric_cols,
                   p_rows = map (\<lambda>r. zip names r) tbl\<rparr>)"

section \<open>Binary floating point\<close>

text \<open>
  The rounding of a real to the nearest binary64 number, ties to the even significand.
  \<open>exponent x\<close> is the exponent of the binade of \<open>x > 0\<close>, found by halving or doubling
  \<open>x\<close>, and never below -1022: the subnormal numbers share the exponent -1022. The
  significand has 53 bits. The numbers are below \<open>2 ^ 1024\<close> in absolute value: overflow
  to infinity is outside the model.
\<close>

definition round_half_even :: "real \<Rightarrow> int" where
  "round_half_even x =
     (let f = \<lfloor>x\<rfloor>; d = x - of_int f
      in if d < 1 / 2 then f else if d > 1 / 2 then f + 1 else if even f then f else f + 1)"

fun halvings :: "nat \<Rightarrow> real \<Rightarrow> nat" where
  "halvings 0 x = 0"
| "halvings (Suc n) x = (if 2 \<le> x then Suc (halvings n (x / 2)) else 0)"

fun doublings :: "nat \<Rightarrow> real \<Rightarrow> nat" where
  "doublings 0 x = 0"
| "doublings (Suc n) x = (if x < 1 then Suc (doublings n (2 * x)) else 0)"

definition exponent :: "real \<Rightarrow> int" where
  "exponent x = (if 1 \<le> x then int (halvings 1023 x) else - int (doublings 1022 x))"

definition binary64 :: "real \<Rightarrow> real" where
  "binary64 x =
     (if x = 0 then 0
      else let u = 2 powi (exponent \<bar>x\<bar> - 52)
           in of_int (round_half_even (x / u)) * u)"

section \<open>The analysis engine (insights.py)\<close>

text \<open>
  \<open>_find_col\<close> compiles the alternation of \<open>\<bsol>b keyword \<bsol>b\<close> with \<open>re.I\<close> and returns the
  first column on which it is found. On code points below 256: a word character is an
  alphanumeric character or the underscore, two characters are equal up to case when
  their lower cases are equal, and \<open>\<bsol>b\<close> holds between a word character and a
  character that is none (or an end of the text).
\<close>

definition is_word :: "char \<Rightarrow> bool" where
  "is_word c = (let n = (of_char c :: nat) in
     (48 \<le> n \<and> n \<le> 57) \<or> (65 \<le> n \<and> n \<le> 90) \<or> n = 95 \<or> (97 \<le> n \<and> n \<le> 122) \<or>
     n = 170 \<or> n = 178 \<or> n = 179 \<or> n = 181 \<or> n = 185 \<or> n = 186 \<or>
     (188 \<le> n \<and> n \<le> 190) \<or> (192 \<le> n \<and> n \<le> 214) \<or> (216 \<le> n \<and> n \<le> 246) \<or> 248 \<le> n)"

definition lower :: "char \<Rightarrow> char" where
  "lower c = (let n = (of_char c :: nat) in
     if (65 \<le> n \<and> n \<le> 90) \<or> (192 \<le> n \<and> n \<le> 214) \<or> (216 \<le> n \<and> n \<le> 222)
     then char_of (n + 32) else c)"

definition starts_word :: "string \<Rightarrow> bool" where
  "starts_word s = (case s of [] \<Rightarrow> False | c # t \<Rightarrow> is_word c)"

text \<open>
  The keyword matches at the head of \<open>s\<close>, \<open>prev\<close> telling whether the character in
  front of \<open>s\<close> is a word character.
\<close>

definition match_here :: "string \<Rightarrow> bool \<Rightarrow> string \<Rightarrow> bool" where
  "match_here kw prev s =
     (length kw \<le> length s \<and> map lower (take (length kw) s) = map lower kw \<and>
      prev \<noteq> starts_word s \<and>
      (if kw = [] then prev else is_word (last (take (length kw) s)))
        \<noteq> starts_word (drop (length kw) s))"

fun search_from :: "string list \<Rightarrow> bool \<Rightarrow> string \<Rightarrow> bool" where
  "search_from kws prev [] = (\<exists>kw \<in> set kws. match_here kw prev [])"
| "search_from kws prev (c # s) =
     ((\<exists>kw \<in> set kws. match_here kw prev (c # s)) \<or> search_from kws (is_word c) s)"

definition re_search :: "string list \<Rightarrow> string \<Rightarrow> bool" where
  "re_search candidates s = search_from candidates False s"

definition find_col :: "string list \<Rightarrow> string list \<Rightarrow> string option" where
  "find_col cols candidates = find (re_search candidates) cols"

record metrics =
  m_impressions :: "string option"
  m_clicks :: "string option"
  m_ctr :: "string option"
  m_spend :: "string option"
  m_cpc :: "string option"
  m_cpm :: "string option"
  m_primary :: "string option"

definition row_get :: "prow \<Rightarrow> string \<Rightarrow> cell option" where
  "row_get r name = map_of r name"

text \<open>The numbers a column holds over the rows of a payload.\<close>

definition numbers_of :: "prow list \<Rightarrow> string \<Rightarrow> real list" where
  "numbers_of rows c = concat (map (\<lambda>r. case row_get r c of Some (Num x) \<Rightarrow> [x] | _ \<Rightarrow> []) rows)"

text \<open>\<open>isinstance(v, (int, float))\<close>: a number, NaN included.\<close>

definition is_number :: "cell option \<Rightarrow> bool" where
  "is_number v = (case v of Some (Num x) \<Rightarrow> True | Some NaN \<Rightarrow> True | _ \<Rightarrow> False)"

definition first_present :: "string option list \<Rightarrow> string option" where
  "first_present cands = (case filter (\<lambda>c. c \<noteq> None) cands of [] \<Rightarrow> None | c # cs \<Rightarrow> c)"

definition infer_metrics_from_payload :: "payload \<Rightarrow> metrics" where
  "infer_metrics_from_payload payload =
     (let cols = p_columns payload;
          col_impr = find_col cols [''Impressions'', ''Impr'', ''Imps''];
          col_clicks = find_col cols [''Clicks'', ''Click'', ''Clics''];
          col_ctr = find_col cols [''CTR'', ''Click-Through Rate''];
          col_spend = find_col cols [''Spend'', ''Cost'', ''D'' @ [CHR 0xE9] @ ''pense'', ''Budget''];
          col_cpc = find_col cols [''CPC''];
          col_cpm = find_col cols [''CPM''];
          primary_numeric =
            (case first_present [col_spend, col_clicks, col_impr, col_ctr, col_cpc, col_cpm] of
               Some c \<Rightarrow> Some c
             | None \<Rightarrow> find (\<lambda>c. \<exists>r \<in> set (p_rows payload). is_number (row_get r c)) cols)
      in \<lparr>m_impressions = col_impr, m_clicks = col_clicks, m_ctr = col_ctr, m_spend = col_spend,
          m_cpc = col_cpc, m_cpm = col_cpm, m_primary = primary_numeric\<rparr>)"

text \<open>
  \<open>col_series\<close>: the values of a column over the rows, through
  \<open>pd.to_numeric(errors="coerce")\<close>: a number is kept, a text is parsed, everything else
  (a missing key included) is NaN.
\<close>

definition numeric :: "(string \<Rightarrow> real option) \<Rightarrow> cell option \<Rightarrow> real option" where
  "numeric to_numeric v =
     (case v of Some (Num x) \<Rightarrow> Some x | Some (Txt s) \<Rightarrow> to_numeric s | _ \<Rightarrow> None)"

definition col_series :: "(string \<Rightarrow> real option) \<Rightarrow> prow list \<Rightarrow> string \<Rightarrow> real option list" where
  "col_series to_numeric rows name = map (\<lambda>r. numeric to_numeric (row_get r name)) rows"

text \<open>
  \<open>np.nansum\<close>, \<open>Series.notna().any()\<close> and \<open>np.nanmean\<close>. The mean of a series of
  binary64 numbers is NaN when the series holds no value. Otherwise numpy adds the
  values, with 0 in the place of a missing one, each sum rounded and in an order that
  depends on the length of the series, and divides by the number of values: the function
  from the series to this mean is the parameter \<open>mean64\<close>.
\<close>

definition present :: "real option list \<Rightarrow> real list" where
  "present s = concat (map (\<lambda>v. case v of None \<Rightarrow> [] | Some x \<Rightarrow> [x]) s)"

definition nansum :: "real option list \<Rightarrow> real" where
  "nansum s = sum_list (present s)"

definition notna_any :: "real option list \<Rightarrow> bool" where
  "notna_any s = (present s \<noteq> [])"

definition nanmean :: "(real option list \<Rightarrow> real) \<Rightarrow> real option list \<Rightarrow> real option" where
  "nanmean mean64 s = (if present s = [] then None else Some (mean64 s))"

text \<open>
  The weighted ratios. A key the dictionary does not get and a key set to \<open>None\<close> are
  both \<open>None\<close> here.
\<close>

record weighted_ratios =
  ctr_weighted :: "real option"
  clicks_sum :: "real option"
  impressions_sum :: "real option"
  cpc_weighted :: "real option"
  spend_sum :: "real option"
  cpm_weighted :: "real option"

definition weighted_of ::
  "real option list option \<Rightarrow> real option list option \<Rightarrow> real option list option \<Rightarrow> weighted_ratios" where
  "weighted_of s_impr s_clicks s_spend =
     (let w1 = (case (s_impr, s_clicks) of
                  (Some si, Some sc) \<Rightarrow>
                    if notna_any si
                    then \<lparr>ctr_weighted = (if nansum si > 0 then Some (nansum sc / nansum si) else None),
                          clicks_sum = Some (nansum sc), impressions_sum = Some (nansum si),
                          cpc_weighted = None, spend_sum = None, cpm_weighted = None\<rparr>
                    else \<lparr>ctr_weighted = None, clicks_sum = None, impressions_sum = None,
                          cpc_weighted = None, spend_sum = None, cpm_weighted = None\<rparr>
                | _ \<Rightarrow> \<lparr>ctr_weighted = None, clicks_sum = None, impressions_sum = None,
                        cpc_weighted = None, spend_sum = None, cpm_weighted = None\<rparr>);
          w2 = (case (s_spend, s_clicks) of
                  (Some ss, Some sc) \<Rightarrow>
                    if notna_any sc
                    then w1\<lparr>cpc_weighted := (if nansum sc \<noteq> 0 \<and> nansum sc > 0
                                               then Some (nansum ss / nansum sc) else None),
                            spend_sum := Some (nansum ss)\<rparr>
                    else w1
                | _ \<Rightarrow> w1)
      in (case (s_spend, s_impr) of
            (Some ss, Some si) \<Rightarrow>
              if notna_any si
              then w2\<lparr>cpm_weighted := (if nansum si \<noteq> 0 \<and> nansum si > 0
                                         then Some (nansum ss / nansum si * 1000) else None)\<rparr>
              else w2
          | _ \<Rightarrow> w2))"

text \<open>
  The dispersion of the primary metric over its values that are not missing: population
  standard deviation, interquartile range with linear interpolation, min and max.
\<close>

record dispersion =
  d_std :: real
  d_iqr :: real
  d_min :: real
  d_max :: real

definition percentile :: "real list \<Rightarrow> real \<Rightarrow> real" where
  "percentile xs q =
     (let s = sort xs; n = length s; pos = real (n - 1) * q / 100;
          lo = nat \<lfloor>pos\<rfloor>; frac = pos - real lo
      in if lo + 1 < n then s ! lo + frac * (s ! (lo + 1) - s ! lo) else s ! lo)"

definition nanstd :: "real list \<Rightarrow> real" where
  "nanstd xs = (let mu = sum_list xs / real (length xs) in
     sqrt (sum_list (map (\<lambda>x. (x - mu)\<^sup>2) xs) / real (length xs)))"

definition dispersion_of :: "real option list option \<Rightarrow> dispersion option" where
  "dispersion_of s_primary =
     (case s_primary of
        None \<Rightarrow> None
      | Some s \<Rightarrow>
          (case present s of
             [] \<Rightarrow> None
           | x # xs \<Rightarrow> Some \<lparr>d_std = nanstd (x # xs),
                             d_iqr = percentile (x # xs) 75 - percentile (x # xs) 25,
                             d_min = fold min xs x, d_max = fold max xs x\<rparr>))"

text \<open>
  \<open>sorted(rows, key=..., reverse=True)\<close>. The key of a row is a float, minus infinity
  or NaN. The sort is stable and descending. When a key is NaN the comparisons do not
  order the rows and the result is fixed by the algorithm, not by the keys: it is the
  parameter \<open>nan_order\<close>.
\<close>

datatype sortkey = NegInf | Key real | KeyNaN

fun sk_ge :: "sortkey \<Rightarrow> sortkey \<Rightarrow> bool" where
  "sk_ge (Key x) (Key y) = (x \<ge> y)"
| "sk_ge a NegInf = True"
| "sk_ge a b = False"

definition sorted_desc :: "('a list \<Rightarrow> 'a list) \<Rightarrow> ('a \<Rightarrow> sortkey) \<Rightarrow> 'a list \<Rightarrow> 'a list" where
  "sorted_desc nan_order key rows =
     (if \<exists>r \<in> set rows. key r = KeyNaN then nan_order rows
      else sort_by (\<lambda>a b. sk_ge (key a) (key b)) rows)"

record ranking =
  top :: "prow list"
  bottom :: "prow list"

definition getv :: "string \<Rightarrow> prow \<Rightarrow> sortkey" where
  "getv key_col r =
     (case row_get r key_col of Some (Num x) \<Rightarrow> Key x | Some NaN \<Rightarrow> KeyNaN | _ \<Rightarrow> NegInf)"

text \<open>
  \<open>build_ranked\<close> returns the empty list, not a dictionary, when there is no key column.
\<close>

definition build_ranked :: "(prow list \<Rightarrow> prow list) \<Rightarrow> prow list \<Rightarrow> string option \<Rightarrow> nat \<Rightarrow> ranking option" where
  "build_ranked nan_order rows key_col topn =
     (case key_col of
        None \<Rightarrow> None
      | Some c \<Rightarrow>
          let ranked = sorted_desc nan_order (getv c) rows
          in Some \<lparr>top = take topn ranked,
                   bottom = rev (if topn = 0 then ranked else drop (length ranked - topn) ranked)\<rparr>)"

record quality =
  ctr_vs_ratio_warning :: bool
  ctr_vs_ratio_avg_abs_diff :: "real option"
  missing_columns :: "string list"

definition truthy :: "string option \<Rightarrow> bool" where
  "truthy name = (case name of None \<Rightarrow> False | Some s \<Rightarrow> s \<noteq> [])"

text \<open>
  The data-quality check, in binary64. The numbers of a series are binary64 numbers (an
  integer of the payload is converted when it is divided). One row of
  \<open>s_clicks / s_impr.replace({0: np.nan})\<close> is the rounded quotient, an impression
  count of 0 being missing; one row of \<open>np.abs(ratio - s_ctr)\<close> is the absolute value of
  the rounded difference; the threshold is the binary64 number that the literal \<open>0.02\<close>
  denotes, and a comparison with NaN is false.
\<close>

definition implied_ratio :: "real option \<Rightarrow> real option \<Rightarrow> real option" where
  "implied_ratio clicks impr =
     (case (clicks, impr) of
        (Some c, Some i) \<Rightarrow>
          if binary64 i = 0 then None else Some (binary64 (binary64 c / binary64 i))
      | _ \<Rightarrow> None)"

definition abs_diff :: "real option \<Rightarrow> real option \<Rightarrow> real option" where
  "abs_diff a b =
     (case (a, b) of (Some x, Some y) \<Rightarrow> Some \<bar>binary64 (x - binary64 y)\<bar> | _ \<Rightarrow> None)"

definition quality_of ::
  "(real option list \<Rightarrow> real) \<Rightarrow> metrics \<Rightarrow> real option list option \<Rightarrow> real option list option \<Rightarrow>
   real option list option \<Rightarrow> quality" where
  "quality_of mean64 m s_impr s_clicks s_ctr =
     (let missing = concat (map (\<lambda>(present, name). if present = None then [name] else [])
                     [(m_impressions m, ''Impressions''), (m_clicks m, ''Clicks''), (m_spend m, ''Spend'')])
      in if truthy (m_ctr m) \<and> truthy (m_clicks m) \<and> truthy (m_impressions m) then
           (case (s_impr, s_clicks, s_ctr) of
              (Some si, Some sc, Some st) \<Rightarrow>
                let diff = nanmean mean64 (map (\<lambda>((c, i), t). abs_diff (implied_ratio c i) t)
                                            (zip (zip sc si) st))
                in \<lparr>ctr_vs_ratio_warning =
                      (case diff of None \<Rightarrow> False | Some d \<Rightarrow> d > binary64 (2 / 100)),
                    ctr_vs_ratio_avg_abs_diff = diff, missing_columns = missing\<rparr>
            | _ \<Rightarrow> \<lparr>ctr_vs_ratio_warning = False, ctr_vs_ratio_avg_abs_diff = None,
                    missing_columns = missing\<rparr>)
         else \<lparr>ctr_vs_ratio_warning = False, ctr_vs_ratio_avg_abs_diff = None,
               missing_columns = missing\<rparr>)"

record analysis =
  inferred_metrics :: metrics
  weighted :: weighted_ratios
  dispersion_on_primary :: "dispersion option"
  ranking_on_primary :: ranking
  data_quality :: quality

text \<open>
  \<open>_analyze_payload\<close>. The result unpacks the ranking with \<open>**ranking\<close>: when there is no
  primary metric the ranking is a list, and unpacking it raises \<open>TypeError\<close>.
\<close>

definition analyze_payload ::
  "(string \<Rightarrow> real option) \<Rightarrow> (real option list \<Rightarrow> real) \<Rightarrow> (prow list \<Rightarrow> prow list) \<Rightarrow> payload \<Rightarrow>
   exn + analysis" where
  "analyze_payload to_numeric mean64 nan_order payload =
     (let rows = p_rows payload;
          m = infer_metrics_from_payload payload;
          series = (\<lambda>name. map_option (col_series to_numeric rows) name);
          s_impr = series (m_impressions m);
          s_clicks = series (m_clicks m);
          s_ctr = series (m_ctr m);
          s_spend = series (m_spend m);
          primary = m_primary m;
          s_primary = (if truthy primary then series primary else None)
      in case build_ranked nan_order rows primary 5 of
           None \<Rightarrow> Inl TypeError
         | Some rk \<Rightarrow>
             Inr \<lparr>inferred_metrics = m,
                  weighted = weighted_of s_impr s_clicks s_spend,
                  dispersion_on_primary = dispersion_of s_primary,
                  ranking_on_primary = rk,
                  data_quality = quality_of mean64 m s_impr s_clicks s_ctr\<rparr>)"

text \<open>A row is one of the rows of a payload; a sort key is strictly below a number.\<close>

definition contains_row :: "prow \<Rightarrow> payload \<Rightarrow> bool" where
  "contains_row r pl = (r \<in> set (p_rows pl))"

definition below :: "real \<Rightarrow> sortkey \<Rightarrow> bool" where
  "below x k = (case k of Key y \<Rightarrow> y < x | NegInf \<Rightarrow> True | KeyNaN \<Rightarrow> False)"

section \<open>The fallback narrative (insights.py)\<close>

text \<open>
  \<open>fallback_comment_on_pivot(payload)\<close>. The format \<open>{x:,.2f}\<close> of a float is the
  parameter \<open>format_2f\<close>.
\<close>

definition em_dash :: string where
  "em_dash = [CHR 0xE2, CHR 0x80, CHR 0x94]"

definition arrow :: string where
  "arrow = [CHR 0xE2, CHR 0x86, CHR 0x92]"

definition msg_no_data :: string where
  "msg_no_data = ''Aucune donn'' @ [CHR 0xE9] @ ''e dans le pivot.''"

definition msg_not_numeric :: string where
  "msg_not_numeric = ''**TL;DR** '' @ em_dash @ '' Pivot non num'' @ [CHR 0xE9] @ ''rique : v''
     @ [CHR 0xE9] @ ''rifie les m'' @ [CHR 0xE9] @ ''triques choisies.''"

definition msg_top_rows :: string where
  "msg_top_rows = ''Top lignes (selon la premi'' @ [CHR 0xE8] @ ''re m'' @ [CHR 0xE9]
     @ ''trique num'' @ [CHR 0xE9] @ ''rique) :''"

definition msg_recos :: string where
  "msg_recos = ''Recos : approfondir les segments en t'' @ [CHR 0xEA] @ ''te, v'' @ [CHR 0xE9]
     @ ''rifier les extr'' @ [CHR 0xEA] @ ''mes, et tester des variantes sur les segments sous-performants.''"

definition headline :: "(real \<Rightarrow> string) \<Rightarrow> string \<Rightarrow> real \<Rightarrow> real \<Rightarrow> string" where
  "headline format_2f first tot avg =
     replace_char CHR ''.'' '',''
       (replace_char CHR '','' '' ''
          (''**TL;DR** '' @ em_dash @ '' La m'' @ [CHR 0xE9] @ ''trique '' @ [CHR 0xAB] @ '' '' @ first
           @ '' '' @ [CHR 0xBB] @ '' totalise '' @ format_2f tot @ '' (moyenne '' @ format_2f avg @ '').''))"

text \<open>The key \<open>r.get(first) or 0\<close> of a row that holds a number.\<close>

definition top_key :: "string \<Rightarrow> prow \<Rightarrow> sortkey" where
  "top_key first r = (case row_get r first of Some (Num x) \<Rightarrow> Key x | Some NaN \<Rightarrow> KeyNaN | _ \<Rightarrow> Key 0)"

definition row_line :: "(cell \<Rightarrow> string) \<Rightarrow> string list \<Rightarrow> string \<Rightarrow> prow \<Rightarrow> string" where
  "row_line repr numeric_names first r =
     (let label = take 120 (join '' | '' (map (\<lambda>(k, v). py_str repr v)
                                            (filter (\<lambda>(k, v). k \<notin> set numeric_names) r)))
      in ''- '' @ label @ '' '' @ arrow @ '' '' @ first @ ''=''
         @ (case row_get r first of None \<Rightarrow> ''None'' | Some v \<Rightarrow> py_str repr v))"

definition fallback_comment_on_pivot ::
  "(cell \<Rightarrow> string) \<Rightarrow> (real \<Rightarrow> string) \<Rightarrow> (prow list \<Rightarrow> prow list) \<Rightarrow> payload \<Rightarrow> string" where
  "fallback_comment_on_pivot repr format_2f nan_order payload =
     (let rows = p_rows payload in
      if rows = [] then msg_no_data
      else
        case numeric_summary payload of
          [] \<Rightarrow> msg_not_numeric
        | (first, st) # others \<Rightarrow>
            let top_rows = take 3 (sorted_desc nan_order (top_key first)
                                     (filter (\<lambda>r. is_number (row_get r first)) rows));
                numeric_names = map fst (numeric_summary payload)
            in join [CHR 0x0A]
                 ([headline format_2f first (s_sum st) (s_mean st)]
                  @ (if top_rows = [] then []
                     else msg_top_rows # map (row_line repr numeric_names first) top_rows)
                  @ [msg_recos]))"

section \<open>Example payloads\<close>

text \<open>
  The two-row payload of the specification, a payload whose impressions sum to a
  negative number, and the one-row payload of an impression count, a click count and a
  stated click-rate. \<open>seq_mean\<close> is an instance of \<open>mean64\<close>: the values are added from
  left to right, which is the mean of numpy on a series of one value (the value itself)
  and of two.
\<close>

definition seq_mean :: "real option list \<Rightarrow> real" where
  "seq_mean s =
     binary64 (fold (\<lambda>x a. binary64 (a + x)) (present s) 0 / real (length (present s)))"

definition two_row_payload :: payload where
  "two_row_payload =
     \<lparr>shape_rows = 2, shape_cols = 2, p_columns = [''Impressions'', ''Clicks''],
      numeric_summary = [],
      p_rows = [[(''Impressions'', Num 1000), (''Clicks'', Num 10)],
                [(''Impressions'', Num 100), (''Clicks'', Num 5)]]\<rparr>"

definition negative_payload :: payload where
  "negative_payload =
     \<lparr>shape_rows = 1, shape_cols = 2, p_columns = [''Impressions'', ''Clicks''],
      numeric_summary = [],
      p_rows = [[(''Impressions'', Num (- 100)), (''Clicks'', Num 5)]]\<rparr>"

definition ctr_payload :: "real \<Rightarrow> real \<Rightarrow> real \<Rightarrow> payload" where
  "ctr_payload impressions clicks stated =
     \<lparr>shape_rows = 1, shape_cols = 3, p_columns = [''Impressions'', ''Clicks'', ''CTR''],
      numeric_summary = [],
      p_rows = [[(''Impressions'', Num impressions), (''Clicks'', Num clicks),
                 (''CTR'', Num stated)]]\<rparr>"

section \<open>Example pivots\<close>

text \<open>
  A pivot by region with the clicks of two channels in its columns, the payload of its
  first two rows, and a pivot whose channel label ends with a space.
\<close>

definition channel_pivot :: pivot where
  "channel_pivot =
     \<lparr>index_names = [Some ''Region''], column_names = [None, Some ''Channel''],
      col_labels = [[Txt ''Clicks'', Txt ''TV''], [Txt ''Clicks'', Txt ''Web'']],
      body = [([Txt ''EU''], [Some 1, Some 2]), ([Txt ''US''], [Some 3, Some 0]),
              ([Txt ''Total''], [Some 4, Some 2])]\<rparr>"

definition channel_payload :: payload where
  "channel_payload =
     \<lparr>shape_rows = 2, shape_cols = 3,
      p_columns = [''Region'', ''Clicks | TV'', ''Clicks | Web''],
      numeric_summary =
        [(''Clicks | TV'', \<lparr>s_sum = 4, s_mean = 2, s_min = 1, s_max = 3, s_non_null = 2\<rparr>),
         (''Clicks | Web'', \<lparr>s_sum = 2, s_mean = 1, s_min = 0, s_max = 2, s_non_null = 2\<rparr>)],
      p_rows = [[(''Region'', Txt ''EU''), (''Clicks | TV'', Num 1), (''Clicks | Web'', Num 2)],
                [(''Region'', Txt ''US''), (''Clicks | TV'', Num 3), (''Clicks | Web'', Num 0)]]\<rparr>"

definition spaced_pivot :: pivot where
  "spaced_pivot =
     \<lparr>index_names = [Some ''Region''], column_names = [None, Some ''Channel''],
      col_labels = [[Txt ''Clicks'', Txt ''Web '']],
      body = [([Txt ''EU''], [Some 5]), ([Txt ''Total''], [Some 5])]\<rparr>"

section \<open>Example tables\<close>

text \<open>
  A table of spend by region and channel, its pivot by region and channel and the
  payload of that pivot; and the pivot of a table of 1000 campaigns, which has 1001
  rows.
\<close>

definition channel_table :: dataframe where
  "channel_table =
     \<lparr>df_columns = [''Region'', ''Channel'', ''Spend''],
      df_rows = [[Txt ''EU'', Txt ''Web'', Txt ''10''], [Txt ''EU'', Txt ''TV'', Txt ''5''],
                 [Txt ''US'', Txt ''TV'', Txt ''7'']]\<rparr>"

definition channel_spend_pivot :: pivot where
  "channel_spend_pivot =
     \<lparr>index_names = [Some ''Region'', Some ''Channel''], column_names = [None],
      col_labels = [[Txt ''Spend'']],
      body = [([Txt ''EU'', Txt ''TV''], [Some 5]), ([Txt ''EU'', Txt ''Web''], [Some 10]),
              ([Txt ''EU'', Txt ''Sous-total''], [Some 15]),
              ([Txt ''US'', Txt ''TV''], [Some 7]), ([Txt ''US'', Txt ''Sous-total''], [Some 7]),
              ([Txt ''Total'', Txt ''''], [Some 22])]\<rparr>"

definition spend_row :: "string \<Rightarrow> string \<Rightarrow> real \<Rightarrow> prow" where
  "spend_row region channel spend =
     [(''Region'', Txt region), (''Channel'', Txt channel), (''Spend'', Num spend)]"

definition channel_spend_payload :: payload where
  "channel_spend_payload =
     \<lparr>shape_rows = 6, shape_cols = 3, p_columns = [''Region'', ''Channel'', ''Spend''],
      numeric_summary =
        [(''Spend'', \<lparr>s_sum = 66, s_mean = 11, s_min = 5, s_max = 22, s_non_null = 6\<rparr>)],
      p_rows = [spend_row ''EU'' ''TV'' 5, spend_row ''EU'' ''Web'' 10,
                spend_row ''EU'' ''Sous-total'' 15, spend_row ''US'' ''TV'' 7,
                spend_row ''US'' ''Sous-total'' 7, spend_row ''Total'' '''' 22]\<rparr>"

definition thousand_pivot :: pivot where
  "thousand_pivot =
     \<lparr>index_names = [Some ''Campaign''], column_names = [None], col_labels = [[Txt ''Spend'']],
      body = map (\<lambda>i. ([Num (real i)], [Some 1])) [0 ..< 1000] @ [([Txt ''Total''], [Some 1000])]\<rparr>"

section \<open>Evaluation\<close>

lemmas pivot_defs = build_pivot_def pivot_table_def set_column_def get_column_def to_num_def
  cell_at_def col_pos_def of_float_def groupby_agg_def group_keys_def group_cells_def
  keyed_rows_def row_key_def dropna_all_def all_missing_def fillna_def metric_value_def
  sort_by_def append_total_def col_sums_def add_row_subtotals_and_total_def piece_def
  block_def level0_def level1_def replace_char_def nums_def total_label_def
  subtotal_label_def parse_decimal_def is_digit_def digits_value_def

lemmas re_defs = find_col_def re_search_def match_here_def starts_word_def is_word_def lower_def

lemmas series_defs = col_series_def numeric_def row_get_def nansum_def present_def

lemmas payload_defs = pivot_to_payload_def flat_column_names_def level_names_def strip_def
  isspace_def demote_def key_level_def head_def level_is_numeric_def summary_def nums_def
  column_values_def of_float_def


section \<open>Sorting, aggregation and the pivot table\<close>












section \<open>Numeric normalization: what a second pass rests on\<close>

text \<open>
  A second \<open>to_num\<close> renders each float as text and parses it again. It returns the same
  values provided that the text of a parsed float, once normalized, parses to that float,
  and that \<open>nan\<close> does not parse: two properties of the floating point conversions.
\<close>

lemma to_num_again:
  assumes "\<forall>s x. to_numeric s = Some x \<longrightarrow>
             to_numeric (replace_char CHR '','' ''.'' (replace_char CHR '' '' []
                (replace_char (CHR 0xA0) [] (repr (Num x))))) = Some x"
      and "to_numeric ''nan'' = None"
  shows "to_num repr to_numeric (map of_float (to_num repr to_numeric xs))
           = to_num repr to_numeric xs"
proof -
  have "to_numeric (replace_char CHR '','' ''.'' (replace_char CHR '' '' []
          (replace_char (CHR 0xA0) [] (py_str repr (of_float (to_numeric s))))))
        = to_numeric s" for s
    using assms by (cases "to_numeric s") (simp_all add: of_float_def replace_char_def)
  then show ?thesis
    by (simp add: to_num_def)
qed

section \<open>The pivot builder: validation\<close>

text \<open>
  C4. Called with no row-group and no column-group column, or with no metric column,
  \<open>build_pivot\<close> returns (it does not raise) no pivot and a message that is not empty;
  whenever it returns a pivot, the message is empty.
\<close>

theorem build_pivot_validation:
  "((index_cols = [] \<and> columns_cols = []) \<or> value_cols = [] \<longrightarrow>
      (\<exists>msg. build_pivot fs tn df index_cols columns_cols value_cols ag = Inr (None, msg)
             \<and> msg \<noteq> []))
   \<and> (\<forall>pvt msg. build_pivot fs tn df index_cols columns_cols value_cols ag = Inr (Some pvt, msg)
          \<longrightarrow> msg = [])"
  by (auto simp: build_pivot_def msg_no_group_def msg_no_metric_def Let_def
           split: sum.splits if_splits)

theorem build_pivot_validation_witness:
  "(\<exists>msg. build_pivot (\<lambda>x. []) parse_decimal
            \<lparr>df_columns = [''Region'', ''Spend''],
             df_rows = [[Txt ''EU'', Txt ''1 200''], [Txt ''EU'', Txt ''n/a'']]\<rparr>
            [] [] [''Spend''] AggMean = Inr (None, msg) \<and> msg \<noteq> [])
   \<and> (\<exists>msg. build_pivot (\<lambda>x. []) parse_decimal
            \<lparr>df_columns = [''Region'', ''Spend''],
             df_rows = [[Txt ''EU'', Txt ''1 200''], [Txt ''EU'', Txt ''n/a'']]\<rparr>
            [''Region''] [] [] AggMean = Inr (None, msg) \<and> msg \<noteq> [])
   \<and> build_pivot (\<lambda>x. []) parse_decimal
            \<lparr>df_columns = [''Region'', ''Spend''],
             df_rows = [[Txt ''EU'', Txt ''1 200''], [Txt ''EU'', Txt ''n/a'']]\<rparr>
            [''Region''] [] [''Spend''] AggMean
       = Inr (Some \<lparr>index_names = [Some ''Region''], column_names = [None],
                    col_labels = [[Txt ''Spend'']],
                    body = [([Txt ''EU''], [Some 1200]),
                            ([Txt ''Total''], [Some 1200])]\<rparr>, [])"
proof -
  let ?df = "\<lparr>df_columns = [''Region'', ''Spend''],
              df_rows = [[Txt ''EU'', Txt ''1 200''], [Txt ''EU'', Txt ''n/a'']]\<rparr>"
  have a: "\<exists>msg. build_pivot (\<lambda>x. []) parse_decimal ?df [] [] [''Spend''] AggMean = Inr (None, msg)
             \<and> msg \<noteq> []"
    using build_pivot_validation [of "[]" "[]" "[''Spend'']" "\<lambda>x. []" parse_decimal ?df AggMean]
    by simp
  have b: "\<exists>msg. build_pivot (\<lambda>x. []) parse_decimal ?df [''Region''] [] [] AggMean = Inr (None, msg)
             \<and> msg \<noteq> []"
    using build_pivot_validation [of "[''Region'']" "[]" "[]" "\<lambda>x. []" parse_decimal ?df AggMean]
    by simp
  have c: "build_pivot (\<lambda>x. []) parse_decimal ?df [''Region''] [] [''Spend''] AggMean
       = Inr (Some \<lparr>index_names = [Some ''Region''], column_names = [None],
                    col_labels = [[Txt ''Spend'']],
                    body = [([Txt ''EU''], [Some 1200]),
                            ([Txt ''Total''], [Some 1200])]\<rparr>, [])"
    by (simp add: pivot_defs Let_def)
  from a b c show ?thesis by blast
qed

section \<open>The pivot builder: totals and subtotals\<close>

text \<open>
  What the two total paths compute when they return. The plain path appends the sum of
  every row. On a two-level index every group is followed by the sum of its rows, and
  the grand total is the sum of the rows of the pivot, as long as no row of the pivot
  is itself labelled \<open>"Sous-total"\<close> on the second level.
\<close>

lemma col_sums_retag:
  "col_sums n (map (\<lambda>(k, vs). (f k, vs)) rs) = col_sums n rs"
  by (induction rs) (auto simp: col_sums_def)

lemma build_pivot_plain_total:
  assumes "build_pivot fs tn df idx cols vals ag = Inr (Some pvt, msg)"
      and "length idx < 2 \<or> cols \<noteq> []"
  shows "body pvt \<noteq> []
       \<and> fst (last (body pvt)) = [Txt total_label]
       \<and> snd (last (body pvt)) = col_sums (length (col_labels pvt)) (butlast (body pvt))"
proof -
  from assms obtain pvt0 where
    p: "pvt = append_total pvt0"
    by (auto simp: build_pivot_def Let_def pivot_table_def split: if_splits sum.splits)
  show ?thesis
    unfolding p by (auto simp: append_total_def Let_def col_sums_retag)
qed

lemma add_row_subtotals_two_levels:
  assumes "add_row_subtotals_and_total p = Inr pvt" and "length (index_names p) \<ge> 2"
  shows "length (index_names p) = 2 \<and> body p \<noteq> []
     \<and> col_labels pvt = col_labels p
     \<and> body pvt =
         concat (map (\<lambda>g. filter (\<lambda>(k, vs). level0 k = g) (body p)
                          @ [([g, Txt subtotal_label],
                              col_sums (length (col_labels p)) (filter (\<lambda>(k, vs). level0 k = g) (body p)))])
                     (remdups (map (\<lambda>(k, vs). level0 k) (body p))))
         @ [([Txt total_label, Txt ''''],
             col_sums (length (col_labels p))
               (filter (\<lambda>(k, vs). level1 k \<noteq> Txt subtotal_label) (butlast (body pvt))))]"
  using assms
  by (auto simp: add_row_subtotals_and_total_def Let_def piece_def [abs_def] block_def [abs_def]
           split: if_splits)

lemma sum_filter_insert:
  "g \<notin> G \<Longrightarrow>
   sum_list (map h (filter (\<lambda>r. key r = g) xs)) + sum_list (map h (filter (\<lambda>r. key r \<in> G) xs))
     = sum_list (map (h :: 'a \<Rightarrow> real) (filter (\<lambda>r. key r \<in> insert g G) xs))"
  by (induction xs) auto

lemma sum_groups:
  "distinct gs \<Longrightarrow>
   sum_list (map h (concat (map (\<lambda>g. filter (\<lambda>r. key r = g) xs) gs)))
     = sum_list (map (h :: 'a \<Rightarrow> real) (filter (\<lambda>r. key r \<in> set gs) xs))"
proof (induction gs)
  case Nil
  then show ?case by simp
next
  case (Cons g gs)
  then show ?case
    using sum_filter_insert [of g "set gs" h key xs] by simp
qed

lemma sum_all_groups:
  "sum_list (map h (concat (map (\<lambda>g. filter (\<lambda>r. key r = g) xs) (remdups (map key xs)))))
     = sum_list (map (h :: 'a \<Rightarrow> real) xs)"
  using sum_groups [of "remdups (map key xs)" h key xs] by simp

lemma sum_list_concat_real: "sum_list (concat xss) = sum_list (map sum_list (xss :: real list list))"
  by (induction xss) simp_all

lemma col_sums_groups:
  "col_sums n (concat (map (\<lambda>g. filter (\<lambda>(k, vs). level0 k = g) rows)
                          (remdups (map (\<lambda>(k, vs). level0 k) rows))))
     = col_sums n rows"
proof -
  have "sum_list (concat (map c (concat (map (\<lambda>g. filter (\<lambda>r. level0 (fst r) = g) rows)
                          (remdups (map (\<lambda>r. level0 (fst r)) rows))))))
        = sum_list (concat (map c rows))" for c :: "cell list \<times> real option list \<Rightarrow> real list"
    using sum_all_groups [of "sum_list \<circ> c" "\<lambda>r. level0 (fst r)" rows]
    by (simp add: sum_list_concat_real comp_def)
  then show ?thesis
    by (simp add: col_sums_def case_prod_unfold)
qed

lemma filter_pieces:
  assumes "\<forall>r \<in> set rows. level1 (fst r) \<noteq> Txt subtotal_label"
  shows "filter (\<lambda>(k, vs). level1 k \<noteq> Txt subtotal_label)
           (concat (map (\<lambda>g. filter (\<lambda>(k, vs). level0 k = g) rows @ [([g, Txt subtotal_label], S g)]) gs))
         = concat (map (\<lambda>g. filter (\<lambda>(k, vs). level0 k = g) rows) gs)"
proof (induction gs)
  case Nil
  then show ?case by simp
next
  case (Cons g gs)
  have "filter (\<lambda>(k, vs). level1 k \<noteq> Txt subtotal_label) (filter (\<lambda>(k, vs). level0 k = g) rows)
          = filter (\<lambda>(k, vs). level0 k = g) rows"
    using assms by (induction rows) auto
  with Cons show ?case by (simp add: level1_def)
qed

lemma two_level_grand_total:
  assumes "add_row_subtotals_and_total p = Inr pvt" and "length (index_names p) \<ge> 2"
      and "\<forall>r \<in> set (body p). level1 (fst r) \<noteq> Txt subtotal_label"
  shows "last (body pvt) = ([Txt total_label, Txt ''''], col_sums (length (col_labels p)) (body p))"
  using assms(1,2) filter_pieces [OF assms(3)] col_sums_groups [of "length (col_labels p)" "body p"]
  by (auto simp: add_row_subtotals_and_total_def Let_def piece_def [abs_def] block_def [abs_def]
           split: if_splits)

text \<open>With three or more row-group columns and no column-group, \<open>build_pivot\<close> never returns.\<close>

lemma three_or_more_levels_raise:
  assumes "length idx \<ge> 3" and "vals \<noteq> []"
  shows "\<exists>e. build_pivot fs tn df idx [] vals ag = Inl e"
proof -
  have a: "length (index_names p) \<ge> 3 \<Longrightarrow> \<exists>e. add_row_subtotals_and_total p = Inl e" for p
    by (auto simp: add_row_subtotals_and_total_def Let_def)
  have b: "pivot_table d idx [] vals ag 0 = Inr p \<Longrightarrow> index_names p = map Some idx" for d p
    by (auto simp: pivot_table_def Let_def split: if_splits)
  show ?thesis
  proof (cases "coerce_values fs tn ag df vals")
    case (Inl e)
    with assms show ?thesis by (auto simp: build_pivot_def)
  next
    case (Inr d)
    show ?thesis
    proof (cases "pivot_table d idx [] vals ag 0")
      case (Inl e)
      with Inr assms show ?thesis by (auto simp: build_pivot_def)
    next
      case (Inr p)
      from b [OF Inr] assms(1) have "length (index_names (p\<lparr>body := dropna_all (body p)\<rparr>)) \<ge> 3"
        by simp
      from a [OF this] obtain e where
        "add_row_subtotals_and_total (p\<lparr>body := dropna_all (body p)\<rparr>) = Inl e" by blast
      with Inr \<open>coerce_values fs tn ag df vals = Inr d\<close> assms b [OF Inr] show ?thesis
        by (auto simp: build_pivot_def Let_def)
    qed
  qed
qed


text \<open>
  C1, the inputs on which the code fails. A table with the columns Region, Channel and
  Spend and no row, grouped by Region and Channel: the pivot has a MultiIndex and no
  row, \<open>add_row_subtotals_and_total\<close> concatenates no piece, and \<open>build_pivot\<close> raises
  \<open>ValueError\<close> instead of returning a pivot that ends with a Total row, for each of the
  six aggregators. The same happens on a table with rows when no group has a value to
  aggregate: here one row whose spend is the text \<open>n/a\<close>, under the mean.
\<close>

theorem build_pivot_two_levels_no_row_raises:
  "build_pivot fs tn \<lparr>df_columns = [''Region'', ''Channel'', ''Spend''], df_rows = []\<rparr>
     [''Region'', ''Channel''] [] [''Spend''] ag = Inl ValueError
   \<and> build_pivot fs parse_decimal
         \<lparr>df_columns = [''Region'', ''Channel'', ''Spend''],
          df_rows = [[Txt ''EU'', Txt ''Web'', Txt ''n/a'']]\<rparr>
         [''Region'', ''Channel''] [] [''Spend''] AggMean = Inl ValueError"
proof
  show "build_pivot fs tn \<lparr>df_columns = [''Region'', ''Channel'', ''Spend''], df_rows = []\<rparr>
     [''Region'', ''Channel''] [] [''Spend''] ag = Inl ValueError"
    by (cases ag) (simp_all add: pivot_defs Let_def)
  show "build_pivot fs parse_decimal
         \<lparr>df_columns = [''Region'', ''Channel'', ''Spend''],
          df_rows = [[Txt ''EU'', Txt ''Web'', Txt ''n/a'']]\<rparr>
         [''Region'', ''Channel''] [] [''Spend''] AggMean = Inl ValueError"
    by (simp add: pivot_defs Let_def)
qed

text \<open>
  C2, the input on which the code fails. With three row-group columns and no
  column-group the pivot does not get the plain Total row: the index has three levels,
  \<open>add_row_subtotals_and_total\<close> is entered, the key \<open>(g, "Sous-total")\<close> has two levels
  for three names, and \<open>build_pivot\<close> raises \<open>ValueError\<close>.
\<close>

theorem build_pivot_three_levels_raises:
  "build_pivot (\<lambda>x. []) parse_decimal
     \<lparr>df_columns = [''Region'', ''Channel'', ''Campaign'', ''Spend''],
      df_rows = [[Txt ''EU'', Txt ''Web'', Txt ''A'', Txt ''10'']]\<rparr>
     [''Region'', ''Channel'', ''Campaign''] [] [''Spend''] AggSum = Inl ValueError"
  by (simp add: pivot_defs Let_def)

section \<open>Binary floating point: evaluation\<close>

text \<open>
  The binary64 number nearest to a real of a known binade (a normal number): the
  exponent is the one of the binade.
\<close>

lemma halvings_eq:
  "2 ^ k \<le> x \<Longrightarrow> x < 2 ^ Suc k \<Longrightarrow> k \<le> n \<Longrightarrow> halvings n x = k"
proof (induction n arbitrary: k x)
  case 0
  then show ?case by simp
next
  case (Suc n)
  show ?case
  proof (cases "2 \<le> x")
    case True
    with Suc.prems obtain j where j: "k = Suc j"
      by (cases k) auto
    with Suc.prems have "2 ^ j \<le> x / 2" "x / 2 < 2 ^ Suc j" "j \<le> n" by auto
    from Suc.IH [OF this] True j show ?thesis by simp
  next
    case False
    have "k = 0"
    proof (rule ccontr)
      assume "k \<noteq> 0"
      then obtain j where "k = Suc j" by (cases k) auto
      then have "(2::real) \<le> 2 ^ k" by simp
      with Suc.prems False show False by simp
    qed
    with False show ?thesis by simp
  qed
qed

lemma doublings_eq:
  "1 \<le> x * 2 ^ d \<Longrightarrow> x * 2 ^ d < 2 \<Longrightarrow> d \<le> n \<Longrightarrow> doublings n x = d"
proof (induction n arbitrary: d x)
  case 0
  then show ?case by simp
next
  case (Suc n)
  show ?case
  proof (cases "x < 1")
    case True
    with Suc.prems obtain j where j: "d = Suc j"
      by (cases d) auto
    with Suc.prems have "1 \<le> (2 * x) * 2 ^ j" "(2 * x) * 2 ^ j < 2" "j \<le> n"
      by (auto simp: mult_ac)
    from Suc.IH [OF this] True j show ?thesis by simp
  next
    case False
    have "d = 0"
    proof (rule ccontr)
      assume "d \<noteq> 0"
      then obtain j where "d = Suc j" by (cases d) auto
      then have "(2::real) \<le> 2 ^ d" by simp
      moreover have "0 < x" "1 \<le> x" using False by auto
      ultimately have "1 * 2 \<le> x * 2 ^ d"
        by (intro mult_mono) simp_all
      with Suc.prems show False by simp
    qed
    with False show ?thesis by simp
  qed
qed

lemma exponent_eq:
  assumes "2 powi k \<le> x" and "x < 2 powi (k + 1)" and "- 1022 \<le> k" and "k \<le> 1023"
  shows "exponent x = k"
proof (cases "0 \<le> k")
  case True
  then obtain n where n: "k = int n" by (metis nat_0_le)
  with assms have a: "2 ^ n \<le> x" "x < 2 ^ Suc n" "n \<le> 1023"
    by (simp_all add: power_int_add)
  then have "1 \<le> x"
    by (meson one_le_numeral one_le_power order_trans)
  with halvings_eq [OF a] n show ?thesis by (simp add: exponent_def)
next
  case False
  define d where "d = nat (- k)"
  from False have d: "k = - int d" "d \<ge> 1"
    by (simp_all add: d_def)
  have p1: "(2::real) powi k = 1 / 2 ^ d"
    using d by (simp add: power_int_minus field_simps)
  have "(2::real) powi (k + 1) = 2 powi k * 2"
    by (simp add: power_int_add)
  with p1 have p: "(2::real) powi k = 1 / 2 ^ d" "(2::real) powi (k + 1) = 2 / 2 ^ d"
    by simp_all
  have a: "1 \<le> x * 2 ^ d" "x * 2 ^ d < 2" "d \<le> 1022"
    using assms(1,2) unfolding p using assms(3) d(1)
    by (simp_all add: pos_divide_le_eq pos_less_divide_eq)
  have "x < 1"
  proof (rule ccontr)
    assume "\<not> x < 1"
    then have "1 \<le> x" by simp
    moreover have "(2::real) \<le> 2 ^ d" using d(2) by (cases d) auto
    ultimately have "1 * 2 \<le> x * 2 ^ d"
      by (intro mult_mono) simp_all
    with a(2) show False by simp
  qed
  with doublings_eq [OF a] d show ?thesis by (simp add: exponent_def)
qed

lemma binary64_eval:
  assumes "2 powi k \<le> \<bar>x\<bar>" and "\<bar>x\<bar> < 2 powi (k + 1)" and "- 1022 \<le> k" and "k \<le> 1023"
  shows "binary64 x = of_int (round_half_even (x / 2 powi (k - 52))) * 2 powi (k - 52)"
proof -
  have "0 < (2::real) powi k" by simp
  with assms(1) have "0 < \<bar>x\<bar>" by linarith
  then have "x \<noteq> 0" by simp
  with exponent_eq [OF assms] show ?thesis
    by (simp add: binary64_def Let_def)
qed



text \<open>The evaluation of \<open>binary64\<close> on a number that is written out.\<close>

lemma halvings_numeral:
  "halvings (numeral n) x = (if 2 \<le> x then Suc (halvings (pred_numeral n) (x / 2)) else 0)"
  by (simp add: numeral_eq_Suc)

lemma doublings_numeral:
  "doublings (numeral n) x = (if x < 1 then Suc (doublings (pred_numeral n) (2 * x)) else 0)"
  by (simp add: numeral_eq_Suc)

lemmas binary64_simps = binary64_def exponent_def halvings_numeral doublings_numeral
  round_half_even_def power_int_minus Let_def

section \<open>The analysis engine: weighted click-rate and data quality\<close>

lemma find_col_nonempty:
  assumes "find_col cols kws = Some s" and "[] \<notin> set kws"
  shows "s \<noteq> []"
proof
  assume "s = []"
  from assms(1) have "re_search kws s"
    by (auto simp: find_col_def find_Some_iff)
  with \<open>s = []\<close> obtain kw where "kw \<in> set kws" "match_here kw False []"
    by (auto simp: re_search_def)
  then have "kw = []" by (simp add: match_here_def)
  with \<open>kw \<in> set kws\<close> assms(2) show False by simp
qed

lemma infer_truthy:
  "m_impressions (infer_metrics_from_payload p) = Some s \<Longrightarrow> s \<noteq> []"
  "m_clicks (infer_metrics_from_payload p) = Some s \<Longrightarrow> s \<noteq> []"
  "m_ctr (infer_metrics_from_payload p) = Some s \<Longrightarrow> s \<noteq> []"
  by (auto simp: infer_metrics_from_payload_def Let_def dest!: find_col_nonempty)

lemma infer_primary:
  "m_clicks (infer_metrics_from_payload p) = Some c \<Longrightarrow>
   m_primary (infer_metrics_from_payload p) \<noteq> None"
  by (auto simp: infer_metrics_from_payload_def Let_def first_present_def split: list.splits option.splits)

lemma analyze_returns:
  "m_primary (infer_metrics_from_payload p) \<noteq> None \<Longrightarrow> \<exists>a. analyze_payload tn mn no p = Inr a"
  by (auto simp: analyze_payload_def Let_def build_ranked_def split: option.splits)

text \<open>Without a primary metric the analysis raises.\<close>

lemma analyze_without_primary:
  "m_primary (infer_metrics_from_payload p) = None \<Longrightarrow> analyze_payload tn mn no p = Inl TypeError"
  by (simp add: analyze_payload_def Let_def build_ranked_def)

lemma not_notna_nansum: "\<not> notna_any s \<Longrightarrow> nansum s = 0"
  by (simp add: notna_any_def nansum_def)

lemma ctr_weighted_of:
  "ctr_weighted (weighted_of s_impr s_clicks s_spend) =
     (case (s_impr, s_clicks) of
        (Some si, Some sc) \<Rightarrow> if nansum si > 0 then Some (nansum sc / nansum si) else None
      | _ \<Rightarrow> None)"
  by (auto simp: weighted_of_def Let_def not_notna_nansum split: option.splits)

text \<open>
  C5, as amended. When the impressions and the clicks column are both found the
  analysis returns, and the weighted click-rate of every analysis that returns is
  sum(clicks) / sum(impressions) over the rows of the payload (missing values skipped)
  when both columns are found and sum(impressions) is strictly positive, and null
  otherwise: when a column is absent or sum(impressions) is zero or negative.
\<close>

theorem weighted_click_rate:
  "(m_impressions (infer_metrics_from_payload p) \<noteq> None \<and>
    m_clicks (infer_metrics_from_payload p) \<noteq> None
      \<longrightarrow> (\<exists>a. analyze_payload tn mn no p = Inr a))
   \<and> (\<forall>a. analyze_payload tn mn no p = Inr a \<longrightarrow>
         ctr_weighted (weighted a) =
           (case (m_impressions (infer_metrics_from_payload p),
                  m_clicks (infer_metrics_from_payload p)) of
              (Some i, Some c) \<Rightarrow>
                if nansum (col_series tn (p_rows p) i) > 0
                then Some (nansum (col_series tn (p_rows p) c) / nansum (col_series tn (p_rows p) i))
                else None
            | _ \<Rightarrow> None))"
proof (intro conjI impI allI)
  assume "m_impressions (infer_metrics_from_payload p) \<noteq> None \<and>
    m_clicks (infer_metrics_from_payload p) \<noteq> None"
  then show "\<exists>a. analyze_payload tn mn no p = Inr a"
    using infer_primary analyze_returns by blast
next
  fix a assume "analyze_payload tn mn no p = Inr a"
  then have "weighted a =
      weighted_of (map_option (col_series tn (p_rows p)) (m_impressions (infer_metrics_from_payload p)))
                  (map_option (col_series tn (p_rows p)) (m_clicks (infer_metrics_from_payload p)))
                  (map_option (col_series tn (p_rows p)) (m_spend (infer_metrics_from_payload p)))"
    by (auto simp: analyze_payload_def Let_def split: option.splits)
  then show "ctr_weighted (weighted a) =
           (case (m_impressions (infer_metrics_from_payload p),
                  m_clicks (infer_metrics_from_payload p)) of
              (Some i, Some c) \<Rightarrow>
                if nansum (col_series tn (p_rows p) i) > 0
                then Some (nansum (col_series tn (p_rows p) c) / nansum (col_series tn (p_rows p) i))
                else None
            | _ \<Rightarrow> None)"
    by (simp add: ctr_weighted_of split: option.splits)
qed

lemma zip3_map:
  "map f (zip (zip (map g xs) (map h xs)) (map k xs)) = map (\<lambda>x. f ((g x, h x), k x)) xs"
  by (induction xs) simp_all

text \<open>
  C6, as amended. When the click-rate, the clicks and the impressions column are all
  found, the analysis returns and the data-quality flag is set exactly when there is a
  row on which the difference is defined and the mean of the differences, as numpy
  computes it, is strictly greater than the binary64 number nearest to 0.02. The
  difference of a row is the absolute value of the rounded difference between the
  rounded quotient clicks / impressions and the stated click-rate; it is missing when
  one of the three values is missing or the impression count is 0.
\<close>

theorem ctr_quality_flag:
  assumes "m_ctr (infer_metrics_from_payload p) = Some t"
      and "m_clicks (infer_metrics_from_payload p) = Some c"
      and "m_impressions (infer_metrics_from_payload p) = Some i"
  shows "\<exists>a. analyze_payload tn mn no p = Inr a \<and>
           ctr_vs_ratio_warning (data_quality a) =
             (let ds = map (\<lambda>r. case (numeric tn (row_get r c), numeric tn (row_get r i),
                                       numeric tn (row_get r t)) of
                                  (Some x, Some y, Some z) \<Rightarrow>
                                    if binary64 y = 0 then None
                                    else Some \<bar>binary64 (binary64 (binary64 x / binary64 y)
                                                         - binary64 z)\<bar>
                                | _ \<Rightarrow> None) (p_rows p)
              in (\<exists>d \<in> set ds. d \<noteq> None) \<and> mn ds > binary64 (2 / 100))"
proof -
  from assms(2) obtain a where a: "analyze_payload tn mn no p = Inr a"
    using infer_primary analyze_returns by blast
  have tr: "truthy (Some t)" "truthy (Some c)" "truthy (Some i)"
    using assms infer_truthy by (auto simp: truthy_def)
  define ds where "ds = map (\<lambda>r. case (numeric tn (row_get r c), numeric tn (row_get r i),
                                       numeric tn (row_get r t)) of
                                  (Some x, Some y, Some z) \<Rightarrow>
                                    if binary64 y = 0 then None
                                    else Some \<bar>binary64 (binary64 (binary64 x / binary64 y)
                                                         - binary64 z)\<bar>
                                | _ \<Rightarrow> None) (p_rows p)"
  have ds: "map (\<lambda>r. abs_diff (implied_ratio (numeric tn (row_get r c)) (numeric tn (row_get r i)))
                          (numeric tn (row_get r t))) (p_rows p) = ds"
    unfolding ds_def
    by (rule map_cong) (auto simp: abs_diff_def implied_ratio_def split: option.splits)
  from a have "data_quality a =
      quality_of mn (infer_metrics_from_payload p)
        (map_option (col_series tn (p_rows p)) (m_impressions (infer_metrics_from_payload p)))
        (map_option (col_series tn (p_rows p)) (m_clicks (infer_metrics_from_payload p)))
        (map_option (col_series tn (p_rows p)) (m_ctr (infer_metrics_from_payload p)))"
    by (auto simp: analyze_payload_def Let_def split: option.splits)
  then have "ctr_vs_ratio_warning (data_quality a) =
      (case nanmean mn ds of None \<Rightarrow> False | Some d \<Rightarrow> d > binary64 (2 / 100))"
    using assms tr by (simp add: quality_of_def Let_def col_series_def zip3_map ds)
  moreover have "(present ds \<noteq> []) = (\<exists>d \<in> set ds. d \<noteq> None)"
    by (induction ds) (auto simp: present_def split: option.splits)
  ultimately show ?thesis using a
    unfolding ds_def [symmetric] by (auto simp: nanmean_def Let_def)
qed

lemma analyze_weighted:
  "analyze_payload tn mn no p = Inr a \<Longrightarrow>
   weighted a =
      weighted_of (map_option (col_series tn (p_rows p)) (m_impressions (infer_metrics_from_payload p)))
                  (map_option (col_series tn (p_rows p)) (m_clicks (infer_metrics_from_payload p)))
                  (map_option (col_series tn (p_rows p)) (m_spend (infer_metrics_from_payload p)))"
  by (auto simp: analyze_payload_def Let_def split: option.splits)

lemma infer_two_cols:
  "p_columns p = [''Impressions'', ''Clicks''] \<Longrightarrow>
   infer_metrics_from_payload p =
     \<lparr>m_impressions = Some ''Impressions'', m_clicks = Some ''Clicks'', m_ctr = None,
      m_spend = None, m_cpc = None, m_cpm = None, m_primary = Some ''Clicks''\<rparr>"
  by (simp add: infer_metrics_from_payload_def re_defs first_present_def Let_def)

lemma infer_three_cols:
  "p_columns p = [''Impressions'', ''Clicks'', ''CTR''] \<Longrightarrow>
   infer_metrics_from_payload p =
     \<lparr>m_impressions = Some ''Impressions'', m_clicks = Some ''Clicks'', m_ctr = Some ''CTR'',
      m_spend = None, m_cpc = None, m_cpm = None, m_primary = Some ''Clicks''\<rparr>"
  by (simp add: infer_metrics_from_payload_def re_defs first_present_def Let_def)

theorem weighted_click_rate_witness:
  "m_impressions (infer_metrics_from_payload two_row_payload) \<noteq> None
   \<and> m_clicks (infer_metrics_from_payload two_row_payload) \<noteq> None
   \<and> map_sum id (ctr_weighted \<circ> weighted) (analyze_payload parse_decimal seq_mean id two_row_payload)
       = Inr (Some (15 / 1100))
   \<and> (15 / 1100 :: real) \<noteq> 3 / 100"
proof -
  have m: "infer_metrics_from_payload two_row_payload =
     \<lparr>m_impressions = Some ''Impressions'', m_clicks = Some ''Clicks'', m_ctr = None,
      m_spend = None, m_cpc = None, m_cpm = None, m_primary = Some ''Clicks''\<rparr>"
    by (rule infer_two_cols) (simp add: two_row_payload_def)
  from weighted_click_rate [of two_row_payload parse_decimal seq_mean id] m
  obtain a where a: "analyze_payload parse_decimal seq_mean id two_row_payload = Inr a"
    by auto
  with weighted_click_rate [of two_row_payload parse_decimal seq_mean id] m
  have "ctr_weighted (weighted a) = Some (15 / 1100)"
    by (simp add: two_row_payload_def series_defs)
  with a m show ?thesis by simp
qed

text \<open>
  C5 as stated fails where the impressions sum to a negative number: both columns are
  found, sum(impressions) = -100 is not zero, sum(clicks) = 5, and the weighted
  click-rate is null, not 5 / (-100).
\<close>

theorem weighted_click_rate_counterexample:
  "m_impressions (infer_metrics_from_payload negative_payload) = Some ''Impressions''
   \<and> m_clicks (infer_metrics_from_payload negative_payload) = Some ''Clicks''
   \<and> nansum (col_series parse_decimal (p_rows negative_payload) ''Impressions'') = - 100
   \<and> nansum (col_series parse_decimal (p_rows negative_payload) ''Clicks'') = 5
   \<and> map_sum id (ctr_weighted \<circ> weighted) (analyze_payload parse_decimal seq_mean id negative_payload)
       = Inr None"
proof -
  have m: "infer_metrics_from_payload negative_payload =
     \<lparr>m_impressions = Some ''Impressions'', m_clicks = Some ''Clicks'', m_ctr = None,
      m_spend = None, m_cpc = None, m_cpm = None, m_primary = Some ''Clicks''\<rparr>"
    by (rule infer_two_cols) (simp add: negative_payload_def)
  then obtain a where a: "analyze_payload parse_decimal seq_mean id negative_payload = Inr a"
    using analyze_returns [of negative_payload parse_decimal seq_mean id] by auto
  from analyze_weighted [OF a] m have "ctr_weighted (weighted a) = None"
    by (simp add: ctr_weighted_of negative_payload_def series_defs)
  with a m show ?thesis by (simp add: negative_payload_def series_defs)
qed

lemma ctr_payload_flag:
  assumes "binary64 i \<noteq> 0"
  shows "map_sum id (ctr_vs_ratio_warning \<circ> data_quality)
           (analyze_payload parse_decimal mn id (ctr_payload i c t))
         = Inr (mn [Some \<bar>binary64 (binary64 (binary64 c / binary64 i) - binary64 t)\<bar>]
                  > binary64 (2 / 100))"
proof -
  have m: "infer_metrics_from_payload (ctr_payload i c t) =
     \<lparr>m_impressions = Some ''Impressions'', m_clicks = Some ''Clicks'', m_ctr = Some ''CTR'',
      m_spend = None, m_cpc = None, m_cpm = None, m_primary = Some ''Clicks''\<rparr>"
    by (rule infer_three_cols) (simp add: ctr_payload_def)
  then obtain a where a: "analyze_payload parse_decimal mn id (ctr_payload i c t) = Inr a"
    using analyze_returns [of "ctr_payload i c t" parse_decimal mn id] by auto
  then have "data_quality a =
      quality_of mn (infer_metrics_from_payload (ctr_payload i c t))
        (Some (col_series parse_decimal (p_rows (ctr_payload i c t)) ''Impressions''))
        (Some (col_series parse_decimal (p_rows (ctr_payload i c t)) ''Clicks''))
        (Some (col_series parse_decimal (p_rows (ctr_payload i c t)) ''CTR''))"
    using m by (auto simp: analyze_payload_def Let_def split: option.splits)
  with a m assms show ?thesis
    by (simp add: quality_of_def truthy_def ctr_payload_def series_defs abs_diff_def
                  implied_ratio_def nanmean_def Let_def)
qed

lemma seq_mean_one: "seq_mean [Some d] = binary64 (binary64 d)"
  by (simp add: seq_mean_def present_def)

theorem ctr_quality_flag_witness:
  "m_ctr (infer_metrics_from_payload (ctr_payload 100 3 (4 / 100))) = Some ''CTR''
   \<and> m_clicks (infer_metrics_from_payload (ctr_payload 100 3 (4 / 100))) = Some ''Clicks''
   \<and> m_impressions (infer_metrics_from_payload (ctr_payload 100 3 (4 / 100))) = Some ''Impressions''
   \<and> map_sum id (ctr_vs_ratio_warning \<circ> data_quality)
        (analyze_payload parse_decimal seq_mean id (ctr_payload 100 3 (4 / 100))) = Inr False
   \<and> map_sum id (ctr_vs_ratio_warning \<circ> data_quality)
        (analyze_payload parse_decimal seq_mean id (ctr_payload 100 2 (4 / 100))) = Inr False
   \<and> map_sum id (ctr_vs_ratio_warning \<circ> data_quality)
        (analyze_payload parse_decimal seq_mean id (ctr_payload 100 3 (6 / 100))) = Inr True
   \<and> map_sum id (ctr_vs_ratio_warning \<circ> data_quality)
        (analyze_payload parse_decimal seq_mean id (ctr_payload 0 3 (6 / 100))) = Inr False"
proof -
  have m: "infer_metrics_from_payload (ctr_payload x y z) =
     \<lparr>m_impressions = Some ''Impressions'', m_clicks = Some ''Clicks'', m_ctr = Some ''CTR'',
      m_spend = None, m_cpc = None, m_cpm = None, m_primary = Some ''Clicks''\<rparr>" for x y z
    by (rule infer_three_cols) (simp add: ctr_payload_def)
  have g: "map_sum id (ctr_vs_ratio_warning \<circ> data_quality)
             (analyze_payload parse_decimal seq_mean id (ctr_payload x y z))
           = Inr (binary64 x \<noteq> 0 \<and>
                  seq_mean [Some \<bar>binary64 (binary64 (binary64 y / binary64 x) - binary64 z)\<bar>]
                    > binary64 (2 / 100))" for x y z
  proof -
    have "m_ctr (infer_metrics_from_payload (ctr_payload x y z)) = Some ''CTR''"
      "m_clicks (infer_metrics_from_payload (ctr_payload x y z)) = Some ''Clicks''"
      "m_impressions (infer_metrics_from_payload (ctr_payload x y z)) = Some ''Impressions''"
      by (simp_all add: m)
    from ctr_quality_flag [OF this, of parse_decimal seq_mean id]
    obtain a where "analyze_payload parse_decimal seq_mean id (ctr_payload x y z) = Inr a"
      and "ctr_vs_ratio_warning (data_quality a) =
             (let ds = map (\<lambda>r. case (numeric parse_decimal (row_get r ''Clicks''),
                                       numeric parse_decimal (row_get r ''Impressions''),
                                       numeric parse_decimal (row_get r ''CTR'')) of
                                  (Some x, Some y, Some z) \<Rightarrow>
                                    if binary64 y = 0 then None
                                    else Some \<bar>binary64 (binary64 (binary64 x / binary64 y)
                                                         - binary64 z)\<bar>
                                | _ \<Rightarrow> None) (p_rows (ctr_payload x y z))
              in (\<exists>d \<in> set ds. d \<noteq> None) \<and> seq_mean ds > binary64 (2 / 100))"
      by blast
    then show ?thesis
      by (cases "binary64 x = 0") (simp_all add: ctr_payload_def series_defs Let_def)
  qed
  have "map_sum id (ctr_vs_ratio_warning \<circ> data_quality)
        (analyze_payload parse_decimal seq_mean id (ctr_payload 100 3 (4 / 100))) = Inr False"
    unfolding g seq_mean_one by (simp add: binary64_simps)
  moreover have "map_sum id (ctr_vs_ratio_warning \<circ> data_quality)
        (analyze_payload parse_decimal seq_mean id (ctr_payload 100 2 (4 / 100))) = Inr False"
    unfolding g seq_mean_one by (simp add: binary64_simps)
  moreover have "map_sum id (ctr_vs_ratio_warning \<circ> data_quality)
        (analyze_payload parse_decimal seq_mean id (ctr_payload 100 3 (6 / 100))) = Inr True"
    unfolding g seq_mean_one by (simp add: binary64_simps)
  moreover have "map_sum id (ctr_vs_ratio_warning \<circ> data_quality)
        (analyze_payload parse_decimal seq_mean id (ctr_payload 0 3 (6 / 100))) = Inr False"
    unfolding g by (simp add: binary64_def)
  ultimately show ?thesis using m by simp
qed

text \<open>
  C6 as stated fails on the payload of one row with 10 impressions, 1 click and the
  stated click-rate 0.08: the quotient 1 / 10 is rounded up and the difference computed
  is the binary64 number next above 0.02, so the flag is set. The absolute difference
  between 1 / 10 and 0.08 is exactly 0.02, and the one between 1 / 10 and the binary64
  number that 0.08 denotes is below 0.02: by the claim the flag is not set.
\<close>

theorem ctr_quality_flag_counterexample:
  "map_sum id (ctr_vs_ratio_warning \<circ> data_quality)
        (analyze_payload parse_decimal seq_mean id (ctr_payload 10 1 (8 / 100))) = Inr True
   \<and> \<not> \<bar>1 / 10 - 8 / 100 :: real\<bar> > 2 / 100
   \<and> \<not> \<bar>1 / 10 - binary64 (8 / 100)\<bar> > 2 / 100
   \<and> \<not> \<bar>1 / 10 - binary64 (8 / 100)\<bar> > binary64 (2 / 100)"
proof -
  have "binary64 10 \<noteq> 0"
    by (simp add: binary64_simps)
  from ctr_payload_flag [OF this, of seq_mean 1 "8 / 100"]
  have "map_sum id (ctr_vs_ratio_warning \<circ> data_quality)
        (analyze_payload parse_decimal seq_mean id (ctr_payload 10 1 (8 / 100))) = Inr True"
    by (simp add: seq_mean_one binary64_simps)
  then show ?thesis
    by (simp add: binary64_simps)
qed

section \<open>The fallback narrative: never empty\<close>

lemma join_nonempty: "x \<noteq> [] \<Longrightarrow> join sep (x # xs) \<noteq> []"
  by (cases xs) auto

lemma replace_char_nonempty: "a \<noteq> c \<Longrightarrow> replace_char c by (a # s) \<noteq> []"
  by (simp add: replace_char_def)

lemma headline_nonempty: "headline f2 name tot avg \<noteq> []"
  by (simp add: headline_def replace_char_def)

text \<open>
  C9. The fallback narrative is a function of the payload (and of Python's rendering of
  floats): it has no error result, its text is never empty, it is the no-data message on
  a payload without rows, and the not-numeric message on a payload with rows and no
  numeric column.
\<close>

theorem fallback_never_empty:
  "fallback_comment_on_pivot fs f2 no p \<noteq> []
   \<and> (p_rows p = [] \<longrightarrow> fallback_comment_on_pivot fs f2 no p = msg_no_data)
   \<and> (p_rows p \<noteq> [] \<and> numeric_summary p = [] \<longrightarrow>
        fallback_comment_on_pivot fs f2 no p = msg_not_numeric)"
  by (auto simp: fallback_comment_on_pivot_def Let_def msg_no_data_def msg_not_numeric_def
                 join_nonempty headline_nonempty
           split: list.splits)

theorem fallback_never_empty_witness:
  "fallback_comment_on_pivot (\<lambda>x. []) (\<lambda>x. []) id
     \<lparr>shape_rows = 0, shape_cols = 1, p_columns = [''Region''], numeric_summary = [], p_rows = []\<rparr>
     = msg_no_data
   \<and> fallback_comment_on_pivot (\<lambda>x. []) (\<lambda>x. []) id
     \<lparr>shape_rows = 1, shape_cols = 1, p_columns = [''Region''], numeric_summary = [],
      p_rows = [[(''Region'', Txt ''EU'')]]\<rparr>
     = msg_not_numeric
   \<and> msg_no_data \<noteq> [] \<and> msg_not_numeric \<noteq> []"
  using fallback_never_empty [of "\<lambda>x. []" "\<lambda>x. []" id
          "\<lparr>shape_rows = 0, shape_cols = 1, p_columns = [''Region''], numeric_summary = [], p_rows = []\<rparr>"]
        fallback_never_empty [of "\<lambda>x. []" "\<lambda>x. []" id
          "\<lparr>shape_rows = 1, shape_cols = 1, p_columns = [''Region''], numeric_summary = [],
            p_rows = [[(''Region'', Txt ''EU'')]]\<rparr>"]
  by (simp add: msg_no_data_def msg_not_numeric_def)

section \<open>The payload serializer: columns, rows and summary\<close>

lemma map_of_zip_nth_any:
  "distinct xs \<Longrightarrow> j < length xs \<Longrightarrow>
   map_of (zip xs ys) (xs ! j) = (if j < length ys then Some (ys ! j) else None)"
proof (induction xs arbitrary: ys j)
  case Nil
  then show ?case by simp
next
  case (Cons x xs)
  show ?case
  proof (cases ys)
    case Nil
    then show ?thesis by simp
  next
    case (Cons y ys')
    show ?thesis
    proof (cases j)
      case 0
      then show ?thesis using Cons by simp
    next
      case (Suc k)
      with Cons.prems have "xs ! k \<noteq> x" by auto
      with Suc Cons Cons.prems Cons.IH [of k ys'] show ?thesis by simp
    qed
  qed
qed

lemma nums_column_values:
  assumes "distinct names" and "j < length names"
  shows "nums (column_values tbl j) =
     concat (map (\<lambda>r. case row_get (zip names r) (names ! j) of Some (Num x) \<Rightarrow> [x] | _ \<Rightarrow> []) tbl)"
  using assms
  by (induction tbl)
     (auto simp: nums_def column_values_def row_get_def map_of_zip_nth_any split: cell.splits)

lemma head_take: "0 \<le> n \<Longrightarrow> (if int (length xs) > n then head n xs else xs) = take (nat n) xs"
  by (auto simp: head_def)

lemma fold_min_Min: "fold min xs (x::real) = Min (set (x # xs))"
  by (rule Min.set_eq_fold [symmetric])

lemma fold_max_Max: "fold max xs (x::real) = Max (set (x # xs))"
  by (rule Max.set_eq_fold [symmetric])

lemma summary_facts:
  "s_sum (summary s) = sum_list (nums s)"
  "s_non_null (summary s) = length (nums s)"
  "nums s = [] \<Longrightarrow> s_mean (summary s) = 0 \<and> s_min (summary s) = 0 \<and> s_max (summary s) = 0"
  "nums s \<noteq> [] \<Longrightarrow> s_mean (summary s) = sum_list (nums s) / real (length (nums s))
       \<and> s_min (summary s) = Min (set (nums s)) \<and> s_max (summary s) = Max (set (nums s))"
  by (auto simp: summary_def fold_min_Min fold_max_Max simp del: set_simps split: list.splits)

lemma payload_struct:
  assumes "pivot_to_payload fs pvt max_rows = Inr pl" and "0 \<le> max_rows"
  defines "cols \<equiv> flat_column_names fs pvt"
  defines "names \<equiv> level_names cols pvt @ cols"
  defines "tbl \<equiv> take (nat max_rows) (map (demote (length (level_names cols pvt))) (body pvt))"
  shows "distinct names" "p_columns pl = names" "p_rows pl = map (zip names) tbl"
    "numeric_summary pl = map (\<lambda>j. (names ! j, summary (column_values tbl j)))
        (filter (\<lambda>j. j \<ge> length (level_names cols pvt) \<or> level_is_numeric pvt j) [0 ..< length names])"
    "shape_rows pl = length tbl" "shape_cols pl = length names"
  using assms(1) assms(2)
  unfolding cols_def names_def tbl_def
  by (auto simp: pivot_to_payload_def Let_def head_def split: if_splits)

lemma length_level_names: "length (level_names cols pvt) = length (index_names pvt)"
  by (auto simp: level_names_def split: list.splits)

lemma payload_returns:
  "distinct (level_names (flat_column_names fs pvt) pvt @ flat_column_names fs pvt) \<Longrightarrow>
   \<exists>pl. pivot_to_payload fs pvt max_rows = Inr pl"
  by (auto simp: pivot_to_payload_def Let_def)

text \<open>
  C8, as amended. \<open>pivot_to_payload\<close> returns a payload whenever the names of the index
  levels and the flat column names are all different. In every payload it returns, for
  \<open>max_rows \<ge> 0\<close>: the name of a multi-level column is its levels, in order, joined by
  \<open>" | "\<close> and then stripped of the white space at both ends; the levels of the row key
  come first in every row, as ordinary columns; the rows are the first \<open>max_rows\<close> rows
  of the pivot; the numeric summary has an entry exactly for the numeric columns, and
  its sum, mean, min, max and count are those of the numbers the column holds in the
  rows that are kept, mean, min and max being 0 when it holds none.
\<close>

theorem pivot_to_payload_contents:
  "(distinct (level_names (flat_column_names fs pvt) pvt @ flat_column_names fs pvt)
      \<longrightarrow> (\<exists>pl. pivot_to_payload fs pvt max_rows = Inr pl))
   \<and> (\<forall>pl. pivot_to_payload fs pvt max_rows = Inr pl \<and> 0 \<le> max_rows \<longrightarrow>
         (length (column_names pvt) \<ge> 2 \<longrightarrow>
            drop (length (index_names pvt)) (p_columns pl)
              = map (\<lambda>col. strip (join '' | '' (map (py_str fs) col))) (col_labels pvt))
       \<and> length (p_columns pl) = length (index_names pvt) + length (col_labels pvt)
       \<and> p_rows pl =
            take (nat max_rows)
              (map (\<lambda>(k, vs). zip (p_columns pl)
                      (map (key_level k) [0 ..< length (index_names pvt)] @ map of_float vs))
                 (body pvt))
       \<and> map fst (numeric_summary pl) =
            map (\<lambda>j. p_columns pl ! j)
              (filter (\<lambda>j. j \<ge> length (index_names pvt) \<or> level_is_numeric pvt j)
                 [0 ..< length (p_columns pl)])
       \<and> (\<forall>(c, st) \<in> set (numeric_summary pl).
             s_sum st = sum_list (numbers_of (p_rows pl) c)
           \<and> s_non_null st = length (numbers_of (p_rows pl) c)
           \<and> (numbers_of (p_rows pl) c = [] \<longrightarrow> s_mean st = 0 \<and> s_min st = 0 \<and> s_max st = 0)
           \<and> (numbers_of (p_rows pl) c \<noteq> [] \<longrightarrow>
                 s_mean st = sum_list (numbers_of (p_rows pl) c)
                               / real (length (numbers_of (p_rows pl) c))
               \<and> s_min st = Min (set (numbers_of (p_rows pl) c))
               \<and> s_max st = Max (set (numbers_of (p_rows pl) c)))))"
proof (intro conjI impI allI)
  assume "distinct (level_names (flat_column_names fs pvt) pvt @ flat_column_names fs pvt)"
  then show "\<exists>pl. pivot_to_payload fs pvt max_rows = Inr pl"
    by (rule payload_returns)
next
  fix pl
  assume a: "pivot_to_payload fs pvt max_rows = Inr pl \<and> 0 \<le> max_rows"
  define cols where "cols = flat_column_names fs pvt"
  define names where "names = level_names cols pvt @ cols"
  define n where "n = length (index_names pvt)"
  define tbl where "tbl = take (nat max_rows) (map (demote n) (body pvt))"
  have n: "length (level_names cols pvt) = n"
    by (simp add: n_def length_level_names)
  from a have s: "distinct names" "p_columns pl = names" "p_rows pl = map (zip names) tbl"
    "numeric_summary pl = map (\<lambda>j. (names ! j, summary (column_values tbl j)))
        (filter (\<lambda>j. j \<ge> n \<or> level_is_numeric pvt j) [0 ..< length names])"
    using payload_struct [of fs pvt max_rows pl]
    unfolding cols_def names_def tbl_def n_def length_level_names by blast+
  show "length (p_columns pl) = length (index_names pvt) + length (col_labels pvt)"
    using s(2) n by (simp add: names_def cols_def n_def flat_column_names_def)
  show "p_rows pl =
            take (nat max_rows)
              (map (\<lambda>(k, vs). zip (p_columns pl)
                      (map (key_level k) [0 ..< length (index_names pvt)] @ map of_float vs))
                 (body pvt))"
    using s(2,3) by (simp add: tbl_def take_map demote_def n_def case_prod_beta)
  show "map fst (numeric_summary pl) =
            map (\<lambda>j. p_columns pl ! j)
              (filter (\<lambda>j. j \<ge> length (index_names pvt) \<or> level_is_numeric pvt j)
                 [0 ..< length (p_columns pl)])"
    using s(2,4) by (simp add: n_def comp_def)
  show "\<forall>(c, st) \<in> set (numeric_summary pl).
             s_sum st = sum_list (numbers_of (p_rows pl) c)
           \<and> s_non_null st = length (numbers_of (p_rows pl) c)
           \<and> (numbers_of (p_rows pl) c = [] \<longrightarrow> s_mean st = 0 \<and> s_min st = 0 \<and> s_max st = 0)
           \<and> (numbers_of (p_rows pl) c \<noteq> [] \<longrightarrow>
                 s_mean st = sum_list (numbers_of (p_rows pl) c)
                               / real (length (numbers_of (p_rows pl) c))
               \<and> s_min st = Min (set (numbers_of (p_rows pl) c))
               \<and> s_max st = Max (set (numbers_of (p_rows pl) c)))"
  proof (clarify)
    fix c st assume "(c, st) \<in> set (numeric_summary pl)"
    with s(4) obtain j where j: "j < length names" "c = names ! j"
      "st = summary (column_values tbl j)"
      by auto
    have "numbers_of (p_rows pl) c = nums (column_values tbl j)"
      using nums_column_values [OF s(1) j(1), of tbl] s(3) j(2)
      by (simp add: numbers_of_def comp_def)
    then show "s_sum st = sum_list (numbers_of (p_rows pl) c)
           \<and> s_non_null st = length (numbers_of (p_rows pl) c)
           \<and> (numbers_of (p_rows pl) c = [] \<longrightarrow> s_mean st = 0 \<and> s_min st = 0 \<and> s_max st = 0)
           \<and> (numbers_of (p_rows pl) c \<noteq> [] \<longrightarrow>
                 s_mean st = sum_list (numbers_of (p_rows pl) c)
                               / real (length (numbers_of (p_rows pl) c))
               \<and> s_min st = Min (set (numbers_of (p_rows pl) c))
               \<and> s_max st = Max (set (numbers_of (p_rows pl) c)))"
      using summary_facts [of "column_values tbl j"] j(3) by simp
  qed
  assume "length (column_names pvt) \<ge> 2"
  then show "drop (length (index_names pvt)) (p_columns pl)
              = map (\<lambda>col. strip (join '' | '' (map (py_str fs) col))) (col_labels pvt)"
    using s(2) n by (simp add: names_def cols_def n_def flat_column_names_def)
qed

theorem pivot_to_payload_contents_witness:
  "pivot_to_payload (\<lambda>x. []) channel_pivot 2 = Inr channel_payload
   \<and> (0::int) \<le> 2
   \<and> length (column_names channel_pivot) \<ge> 2
   \<and> drop 1 (p_columns channel_payload) = [''Clicks | TV'', ''Clicks | Web'']
   \<and> p_rows channel_payload =
        [[(''Region'', Txt ''EU''), (''Clicks | TV'', Num 1), (''Clicks | Web'', Num 2)],
         [(''Region'', Txt ''US''), (''Clicks | TV'', Num 3), (''Clicks | Web'', Num 0)]]"
proof -
  have h: "pivot_to_payload (\<lambda>x. []) channel_pivot 2 = Inr channel_payload"
    by (simp add: payload_defs channel_pivot_def channel_payload_def Let_def)
  from pivot_to_payload_contents [of "\<lambda>x. []" channel_pivot 2] h
  have "drop (length (index_names channel_pivot)) (p_columns channel_payload)
          = map (\<lambda>col. strip (join '' | '' (map (py_str (\<lambda>x. [])) col))) (col_labels channel_pivot)"
    by (simp add: channel_pivot_def)
  then have "drop 1 (p_columns channel_payload) = [''Clicks | TV'', ''Clicks | Web'']"
    by (simp add: channel_pivot_def strip_def isspace_def)
  with h show ?thesis
    by (simp add: channel_pivot_def channel_payload_def)
qed

text \<open>
  C8 as stated fails on a label that ends with a space: the column \<open>("Clicks", "Web ")\<close>
  is named \<open>"Clicks | Web"\<close>, which is not the join \<open>"Clicks | Web "\<close> of its levels.
\<close>

theorem pivot_to_payload_join_counterexample:
  "map_sum id p_columns (pivot_to_payload (\<lambda>x. []) spaced_pivot 1000)
     = Inr [''Region'', ''Clicks | Web'']
   \<and> join '' | '' (map (py_str (\<lambda>x. [])) [Txt ''Clicks'', Txt ''Web '']) = ''Clicks | Web ''"
  by (simp add: payload_defs spaced_pivot_def Let_def)

section \<open>Totals in the payload and in the ranking\<close>

lemma build_pivot_last_total:
  assumes "build_pivot fs tn df idx cols vals ag = Inr (Some pvt, msg)"
  shows "body pvt \<noteq> [] \<and> index_names pvt \<noteq> []
       \<and> (\<exists>ks vs. last (body pvt) = (Txt total_label # ks, vs))"
  using assms
  by (auto simp: build_pivot_def add_row_subtotals_and_total_def append_total_def Let_def
                 pivot_table_def
           split: if_splits sum.splits)

lemma payload_rows_all:
  assumes "pivot_to_payload fs pvt max_rows = Inr pl" and "int (length (body pvt)) \<le> max_rows"
  shows "p_rows pl =
           map (\<lambda>(k, vs). zip (p_columns pl)
                  (map (key_level k) [0 ..< length (index_names pvt)] @ map of_float vs))
             (body pvt)"
proof -
  from assms(2) have "0 \<le> max_rows" by linarith
  with assms(1) payload_struct [of fs pvt max_rows pl]
  have "p_rows pl =
          map (zip (p_columns pl))
            (take (nat max_rows)
               (map (demote (length (level_names (flat_column_names fs pvt) pvt))) (body pvt)))"
    by simp
  with assms(2) show ?thesis
    by (simp add: length_level_names demote_def case_prod_beta)
qed

lemma insort_by_keeps_head:
  "\<not> le a t \<Longrightarrow> insort_by le a (t # ys) = t # insort_by le a ys"
  by simp

lemma sort_by_last_first:
  assumes "\<forall>r \<in> set ys. \<not> le r t"
  shows "\<exists>rest. foldr (insort_by le) ys [t] = t # rest"
  using assms by (induction ys) auto

lemma below_not_ge: "below x k \<Longrightarrow> \<not> sk_ge k (Key x) \<and> k \<noteq> KeyNaN"
  by (cases k) (simp_all add: below_def)

lemma sorted_desc_last_first:
  assumes "key t = Key x" and "\<forall>r \<in> set ys. below x (key r)"
  shows "\<exists>rest. sorted_desc no key (ys @ [t]) = t # rest"
proof -
  have nonan: "\<not> (\<exists>r \<in> set (ys @ [t]). key r = KeyNaN)"
    using assms below_not_ge by auto
  have "\<forall>r \<in> set ys. \<not> sk_ge (key r) (key t)"
    using assms below_not_ge by auto
  then obtain rest where "foldr (insort_by (\<lambda>a b. sk_ge (key a) (key b))) ys [t] = t # rest"
    using sort_by_last_first [of ys "\<lambda>a b. sk_ge (key a) (key b)" t] by auto
  with nonan show ?thesis
    by (simp add: sorted_desc_def sort_by_def)
qed

lemma nansum_append: "nansum (xs @ ys) = nansum xs + nansum ys"
  by (simp add: nansum_def present_def)

lemma analyze_fields:
  assumes "analyze_payload tn mn no p = Inr a"
  shows "inferred_metrics a = infer_metrics_from_payload p"
    and "\<exists>c. m_primary (infer_metrics_from_payload p) = Some c \<and>
           ranking_on_primary a =
             \<lparr>top = take 5 (sorted_desc no (getv c) (p_rows p)),
              bottom = rev (drop (length (sorted_desc no (getv c) (p_rows p)) - 5)
                             (sorted_desc no (getv c) (p_rows p)))\<rparr>"
    and "dispersion_on_primary a =
           dispersion_of (if truthy (m_primary (infer_metrics_from_payload p))
                          then map_option (col_series tn (p_rows p)) (m_primary (infer_metrics_from_payload p))
                          else None)"
  using assms
  by (auto simp: analyze_payload_def Let_def build_ranked_def split: option.splits)


lemma analyze_impressions_sum:
  assumes "analyze_payload tn mn no p = Inr a"
      and "m_impressions (infer_metrics_from_payload p) = Some i"
      and "impressions_sum (weighted a) = Some s"
  shows "s = nansum (col_series tn (p_rows p) i)"
proof -
  have "impressions_sum (weighted_of si sc ss) = Some s \<Longrightarrow> \<exists>x. si = Some x \<and> s = nansum x"
    for si sc ss
    by (auto simp: weighted_of_def Let_def split: option.splits if_splits)
  with analyze_weighted [OF assms(1)] assms(2,3) show ?thesis by fastforce
qed

lemma length_col_sums: "length (col_sums n rs) = n"
  by (simp add: col_sums_def)

lemma col_sums_nth: "j < n \<Longrightarrow> \<exists>x. col_sums n rs ! j = Some x"
  by (simp add: col_sums_def)

lemma build_pivot_last_sums:
  assumes "build_pivot fs tn df idx cols vals ag = Inr (Some pvt, msg)"
  shows "\<exists>ks rs. last (body pvt) = (ks, col_sums (length (col_labels pvt)) rs)"
  using assms
  by (auto simp: build_pivot_def add_row_subtotals_and_total_def append_total_def Let_def
           split: if_splits sum.splits)

lemma find_not_None: "x \<in> set xs \<Longrightarrow> P x \<Longrightarrow> find P xs \<noteq> None"
  by (auto simp: find_None_iff)

lemma primary_of_number:
  assumes "c \<in> set (p_columns p)" and "r \<in> set (p_rows p)" and "is_number (row_get r c)"
  shows "m_primary (infer_metrics_from_payload p) \<noteq> None"
proof -
  have "find (\<lambda>c. \<exists>r \<in> set (p_rows p). is_number (row_get r c)) (p_columns p) \<noteq> None"
    using assms by (intro find_not_None [of c]) auto
  then show ?thesis
    by (auto simp: infer_metrics_from_payload_def Let_def split: option.splits)
qed

lemma analysis_returns_on_pivot:
  assumes "build_pivot fs tn df idx cols vals ag = Inr (Some pvt, msg)"
      and "pivot_to_payload fs pvt max_rows = Inr pl"
      and "int (length (body pvt)) \<le> max_rows"
      and "col_labels pvt \<noteq> []"
  shows "\<exists>a. analyze_payload tn mn no pl = Inr a"
proof -
  define n where "n = length (index_names pvt)"
  from build_pivot_last_total [OF assms(1)] have ne: "body pvt \<noteq> []" by blast
  from build_pivot_last_sums [OF assms(1)] obtain ks rs where
    l: "last (body pvt) = (ks, col_sums (length (col_labels pvt)) rs)" by blast
  from assms(3) have mr: "0 \<le> max_rows" by linarith
  note s = payload_struct [OF assms(2) mr]
  have len: "length (p_columns pl) = n + length (col_labels pvt)"
    using s(2) by (simp add: n_def length_level_names flat_column_names_def)
  have d: "distinct (p_columns pl)" using s(1,2) by simp
  have rows: "p_rows pl =
           map (\<lambda>(k, vs). zip (p_columns pl)
                  (map (key_level k) [0 ..< length (index_names pvt)] @ map of_float vs))
             (body pvt)"
    using assms(2,3) by (rule payload_rows_all)
  define r where "r = last (p_rows pl)"
  have r: "r = zip (p_columns pl)
      (map (key_level ks) [0 ..< n] @ map of_float (col_sums (length (col_labels pvt)) rs))"
    using rows ne l by (simp add: r_def last_map n_def)
  have "p_rows pl \<noteq> []" using rows ne by simp
  then have rin: "r \<in> set (p_rows pl)"
    unfolding r_def by (rule last_in_set)
  have nlt: "n < length (p_columns pl)" using len assms(4) by simp
  obtain x where x: "col_sums (length (col_labels pvt)) rs ! 0 = Some x"
    using col_sums_nth [of 0 "length (col_labels pvt)" rs] assms(4) by auto
  have "row_get r (p_columns pl ! n) = Some (Num x)"
    using map_of_zip_nth_any [OF d nlt, of "map (key_level ks) [0 ..< n]
               @ map of_float (col_sums (length (col_labels pvt)) rs)"] assms(4) x
    by (simp add: r row_get_def nth_append length_col_sums of_float_def)
  then have "is_number (row_get r (p_columns pl ! n))"
    by (simp add: is_number_def)
  with rin nlt have "m_primary (infer_metrics_from_payload pl) \<noteq> None"
    by (intro primary_of_number [of "p_columns pl ! n" pl r]) auto
  then show ?thesis by (rule analyze_returns)
qed

lemma totals_in_payload:
  assumes "build_pivot fs tn df idx cols vals ag = Inr (Some pvt, msg)"
      and "pivot_to_payload fs pvt max_rows = Inr pl"
      and "int (length (body pvt)) \<le> max_rows"
  shows "p_rows pl =
           map (\<lambda>(k, vs). zip (p_columns pl)
                  (map (key_level k) [0 ..< length (index_names pvt)] @ map of_float vs))
             (body pvt)"
    and "p_rows pl \<noteq> []"
    and "row_get (last (p_rows pl)) (hd (p_columns pl)) = Some (Txt total_label)"
proof -
  note lt = build_pivot_last_total [OF assms(1)]
  show rows: "p_rows pl =
           map (\<lambda>(k, vs). zip (p_columns pl)
                  (map (key_level k) [0 ..< length (index_names pvt)] @ map of_float vs))
             (body pvt)"
    using assms(2,3) by (rule payload_rows_all)
  with lt show "p_rows pl \<noteq> []" by simp
  from lt obtain ks vs where l: "last (body pvt) = (Txt total_label # ks, vs)" by blast
  from assms(3) have mr: "0 \<le> max_rows" by linarith
  have len: "length (p_columns pl) = length (index_names pvt) + length (col_labels pvt)"
    using payload_struct(2) [OF assms(2) mr]
    by (simp add: length_level_names flat_column_names_def)
  from lt obtain n where n: "length (index_names pvt) = Suc n"
    by (cases "index_names pvt") auto
  from len n obtain c0 cs where cs: "p_columns pl = c0 # cs"
    by (cases "p_columns pl") auto
  have "last (p_rows pl) = zip (p_columns pl)
          (map (key_level (Txt total_label # ks)) [0 ..< length (index_names pvt)] @ map of_float vs)"
    using rows lt l by (simp add: last_map)
  then show "row_get (last (p_rows pl)) (hd (p_columns pl)) = Some (Txt total_label)"
    using n cs by (simp add: row_get_def upt_rec [of 0] key_level_def)
qed

lemma totals_in_analysis:
  assumes "p_rows pl \<noteq> []" and "analyze_payload tn mn no pl = Inr a"
  shows "(\<forall>i s. m_impressions (inferred_metrics a) = Some i \<and> impressions_sum (weighted a) = Some s
          \<longrightarrow> s = nansum (col_series tn (butlast (p_rows pl)) i)
                  + nansum (col_series tn [last (p_rows pl)] i))
    \<and> (\<forall>c. m_primary (inferred_metrics a) = Some c \<and> c \<noteq> []
          \<longrightarrow> dispersion_on_primary a = dispersion_of (Some (col_series tn (p_rows pl) c)))
    \<and> (\<forall>c x. m_primary (inferred_metrics a) = Some c
             \<and> getv c (last (p_rows pl)) = Key x
             \<and> (\<forall>r \<in> set (butlast (p_rows pl)). below x (getv c r))
          \<longrightarrow> hd (top (ranking_on_primary a)) = last (p_rows pl))"
proof (intro conjI allI impI)
  have split: "p_rows pl = butlast (p_rows pl) @ [last (p_rows pl)]"
    using assms(1) by simp
  {
    fix i s
    assume "m_impressions (inferred_metrics a) = Some i \<and> impressions_sum (weighted a) = Some s"
    then have "s = nansum (col_series tn (p_rows pl) i)"
      using analyze_impressions_sum [OF assms(2)] analyze_fields(1) [OF assms(2)] by simp
    also have "\<dots> = nansum (col_series tn (butlast (p_rows pl) @ [last (p_rows pl)]) i)"
      using split by simp
    finally show "s = nansum (col_series tn (butlast (p_rows pl)) i)
                  + nansum (col_series tn [last (p_rows pl)] i)"
      by (simp add: col_series_def nansum_append)
  }
  {
    fix c
    assume "m_primary (inferred_metrics a) = Some c \<and> c \<noteq> []"
    then show "dispersion_on_primary a = dispersion_of (Some (col_series tn (p_rows pl) c))"
      using analyze_fields(1,3) [OF assms(2)] by (simp add: truthy_def)
  }
  {
    fix c x
    assume h: "m_primary (inferred_metrics a) = Some c
             \<and> getv c (last (p_rows pl)) = Key x
             \<and> (\<forall>r \<in> set (butlast (p_rows pl)). below x (getv c r))"
    then obtain rest where
      "sorted_desc no (getv c) (butlast (p_rows pl) @ [last (p_rows pl)]) = last (p_rows pl) # rest"
      using sorted_desc_last_first [of "getv c" "last (p_rows pl)" x "butlast (p_rows pl)" no]
      by auto
    then have "sorted_desc no (getv c) (p_rows pl) = last (p_rows pl) # rest"
      using split by simp
    moreover from h analyze_fields(1,2) [OF assms(2)] have
      "ranking_on_primary a =
             \<lparr>top = take 5 (sorted_desc no (getv c) (p_rows pl)),
              bottom = rev (drop (length (sorted_desc no (getv c) (p_rows pl)) - 5)
                             (sorted_desc no (getv c) (p_rows pl)))\<rparr>"
      by auto
    ultimately show "hd (top (ranking_on_primary a)) = last (p_rows pl)"
      by simp
  }
qed

text \<open>
  C10, as amended. When the pivot that \<open>build_pivot\<close> returns has at most \<open>max_rows\<close>
  rows, every row of the pivot, the Subtotal rows and the Total row included, is a row of
  the payload, the Total row being the last one. The analysis of this payload returns
  (when the pivot has a column) and treats the rows alike: the sum of the impressions is
  the sum over the other rows plus the Total row, the dispersion is computed over the
  column of all the rows, and the Total row is ranked first whenever its primary-metric
  value is a number and the value of every other row of the payload is strictly below
  it (or not a number).
\<close>

theorem total_row_ranked:
  assumes "build_pivot fs tn df idx cols vals ag = Inr (Some pvt, msg)"
      and "pivot_to_payload fs pvt max_rows = Inr pl"
      and "int (length (body pvt)) \<le> max_rows"
  shows "p_rows pl =
           map (\<lambda>(k, vs). zip (p_columns pl)
                  (map (key_level k) [0 ..< length (index_names pvt)] @ map of_float vs))
             (body pvt)
    \<and> p_rows pl \<noteq> []
    \<and> row_get (last (p_rows pl)) (hd (p_columns pl)) = Some (Txt total_label)
    \<and> (col_labels pvt \<noteq> [] \<longrightarrow> (\<exists>a. analyze_payload tn mn no pl = Inr a))
    \<and> (\<forall>a. analyze_payload tn mn no pl = Inr a \<longrightarrow>
          (\<forall>i s. m_impressions (inferred_metrics a) = Some i \<and> impressions_sum (weighted a) = Some s
             \<longrightarrow> s = nansum (col_series tn (butlast (p_rows pl)) i)
                     + nansum (col_series tn [last (p_rows pl)] i))
        \<and> (\<forall>c. m_primary (inferred_metrics a) = Some c \<and> c \<noteq> []
             \<longrightarrow> dispersion_on_primary a = dispersion_of (Some (col_series tn (p_rows pl) c)))
        \<and> (\<forall>c x. m_primary (inferred_metrics a) = Some c
                \<and> getv c (last (p_rows pl)) = Key x
                \<and> (\<forall>r \<in> set (butlast (p_rows pl)). below x (getv c r))
             \<longrightarrow> hd (top (ranking_on_primary a)) = last (p_rows pl)))"
proof -
  note p = totals_in_payload [OF assms]
  have "col_labels pvt \<noteq> [] \<longrightarrow> (\<exists>a. analyze_payload tn mn no pl = Inr a)"
    using analysis_returns_on_pivot [OF assms] by blast
  moreover have "\<forall>a. analyze_payload tn mn no pl = Inr a \<longrightarrow>
          (\<forall>i s. m_impressions (inferred_metrics a) = Some i \<and> impressions_sum (weighted a) = Some s
             \<longrightarrow> s = nansum (col_series tn (butlast (p_rows pl)) i)
                     + nansum (col_series tn [last (p_rows pl)] i))
        \<and> (\<forall>c. m_primary (inferred_metrics a) = Some c \<and> c \<noteq> []
             \<longrightarrow> dispersion_on_primary a = dispersion_of (Some (col_series tn (p_rows pl) c)))
        \<and> (\<forall>c x. m_primary (inferred_metrics a) = Some c
                \<and> getv c (last (p_rows pl)) = Key x
                \<and> (\<forall>r \<in> set (butlast (p_rows pl)). below x (getv c r))
             \<longrightarrow> hd (top (ranking_on_primary a)) = last (p_rows pl))"
    using totals_in_analysis [OF p(2)] by blast
  ultimately show ?thesis using p by blast
qed

theorem total_row_ranked_witness:
  "build_pivot (\<lambda>x. []) parse_decimal channel_table [''Region'', ''Channel''] [] [''Spend''] AggSum
     = Inr (Some channel_spend_pivot, [])
   \<and> pivot_to_payload (\<lambda>x. []) channel_spend_pivot 1000 = Inr channel_spend_payload
   \<and> int (length (body channel_spend_pivot)) \<le> 1000
   \<and> map_sum id (hd \<circ> top \<circ> ranking_on_primary)
        (analyze_payload parse_decimal seq_mean id channel_spend_payload)
       = Inr (spend_row ''Total'' '''' 22)
   \<and> contains_row (spend_row ''EU'' ''Sous-total'' 15) channel_spend_payload
   \<and> contains_row (spend_row ''Total'' '''' 22) channel_spend_payload"
proof -
  have h1: "build_pivot (\<lambda>x. []) parse_decimal channel_table [''Region'', ''Channel''] [] [''Spend''] AggSum
          = Inr (Some channel_spend_pivot, [])"
    by (simp add: pivot_defs channel_table_def channel_spend_pivot_def Let_def)
  have h2: "pivot_to_payload (\<lambda>x. []) channel_spend_pivot 1000 = Inr channel_spend_payload"
    by (simp add: payload_defs channel_spend_pivot_def channel_spend_payload_def spend_row_def Let_def)
  have h3: "int (length (body channel_spend_pivot)) \<le> 1000"
    by (simp add: channel_spend_pivot_def)
  have m: "infer_metrics_from_payload channel_spend_payload =
     \<lparr>m_impressions = None, m_clicks = None, m_ctr = None,
      m_spend = Some ''Spend'', m_cpc = None, m_cpm = None, m_primary = Some ''Spend''\<rparr>"
    by (simp add: infer_metrics_from_payload_def re_defs first_present_def Let_def
                  channel_spend_payload_def)
  then obtain a where a: "analyze_payload parse_decimal seq_mean id channel_spend_payload = Inr a"
    using analyze_returns [of channel_spend_payload parse_decimal seq_mean id] by auto
  have p: "m_primary (inferred_metrics a) = Some ''Spend''"
    using analyze_fields(1) [OF a] m by simp
  have k: "getv ''Spend'' (last (p_rows channel_spend_payload)) = Key 22"
    by (simp add: channel_spend_payload_def spend_row_def getv_def row_get_def)
  have b: "\<forall>r \<in> set (butlast (p_rows channel_spend_payload)). below 22 (getv ''Spend'' r)"
    by (simp add: channel_spend_payload_def spend_row_def getv_def row_get_def below_def)
  from total_row_ranked [OF h1 h2 h3, where no = id and mn = seq_mean] a p k b
  have "hd (top (ranking_on_primary a)) = last (p_rows channel_spend_payload)"
    by blast
  then have "map_sum id (hd \<circ> top \<circ> ranking_on_primary)
        (analyze_payload parse_decimal seq_mean id channel_spend_payload)
       = Inr (spend_row ''Total'' '''' 22)"
    using a by (simp add: channel_spend_payload_def)
  with h1 h2 h3 show ?thesis
    by (simp add: contains_row_def channel_spend_payload_def)
qed

text \<open>
  C10 as stated fails on a pivot of more than \<open>max_rows\<close> rows: with the default of
  1000, the payload of a pivot of 1000 campaigns and a Total row has 1000 rows, and the
  Total row is none of them.
\<close>

theorem total_row_truncated_counterexample:
  "length (body thousand_pivot) = 1001
   \<and> map_sum id (length \<circ> p_rows) (pivot_to_payload (\<lambda>x. []) thousand_pivot 1000) = Inr 1000
   \<and> map_sum id (contains_row [(''Campaign'', Txt ''Total''), (''Spend'', Num 1000)])
        (pivot_to_payload (\<lambda>x. []) thousand_pivot 1000) = Inr False"
proof -
  have "pivot_to_payload (\<lambda>x. []) thousand_pivot 1000 =
     Inr \<lparr>shape_rows = 1000, shape_cols = 2, p_columns = [''Campaign'', ''Spend''],
          numeric_summary = [(''Spend'', summary (map (\<lambda>i. Num 1) [0 ..< 1000]))],
          p_rows = map (\<lambda>i. [(''Campaign'', Num (real i)), (''Spend'', Num 1)]) [0 ..< 1000]\<rparr>"
    by (simp add: pivot_to_payload_def flat_column_names_def level_names_def demote_def
                  key_level_def head_def level_is_numeric_def thousand_pivot_def Let_def
                  column_values_def of_float_def comp_def
             del: upt_rec_numeral)
  then show ?thesis
    by (auto simp: contains_row_def thousand_pivot_def)
qed

end
